theory Spec2Isabelle
  imports Complex_Main "HOL-Library.Word"
begin

section \<open>The matrix-product-state simulator state (matrix\_product\_state.hpp)\<close>

text \<open>
  The class \<open>AER::MatrixProductState::State\<close> wraps a register \<open>qreg_\<close> of class
  \<open>MPS\<close> and a classical register \<open>creg_\<close>. The class \<open>MPS\<close>, the classical
  register, the JSON helpers and the random-number engine are declared in headers that
  are not part of the verified file; their methods are taken as parameters (the record
  \<open>MPS_interface\<close> below), so every theorem holds for any implementation of them.

  Conventions of the embedding:
  \<^item> \<open>uint_t\<close> is a 64-bit word where its range matters (shot counts, configuration
    values) and a natural number where it only counts or indexes (qubit numbers);
  \<^item> \<open>double\<close> is idealised as \<open>real\<close>: arithmetic on doubles is exact in the model
    (the subsection on the sampling thresholds shows that rounding does not change a
    comparison of the sampler);
  \<^item> a method that can throw returns a sum: \<open>Inl (e, s)\<close> is the exception \<open>e\<close>
    together with the state \<open>s\<close> the object is left in, \<open>Inr s\<close> is normal return.
\<close>

subsection \<open>Data\<close>

type_synonym uint_t = "64 word"
type_synonym reg_t = "nat list"
type_synonym cvector_t = "complex list"

text \<open>
  Modelled from the spec: \<open>cmatrix_t\<close> is declared in framework/matrix.hpp, missing
  from the verified file. The spec calls it a dense complex matrix; \<open>size()\<close> is
  the number of its entries.
\<close>

record cmatrix_t =
  mat_rows :: nat
  mat_cols :: nat
  mat_data :: "complex list"

definition mat_size :: "cmatrix_t \<Rightarrow> nat" where
  "mat_size m = mat_rows m * mat_cols m"

datatype error =
  Invalid_argument string
| Length_error
| Undefined_behaviour string

type_synonym 's result = "(error \<times> 's) + 's"

text \<open>The members of \<open>enum class Gates\<close> that \<open>gateset_\<close> and \<open>apply_gate\<close> name.\<close>

datatype Gates =
  G_id | G_x | G_y | G_z | G_s | G_sdg | G_h | G_sx | G_t | G_tdg
| G_u1 | G_u2 | G_u3 | G_cx | G_cz | G_cu1 | G_swap | G_mcx

datatype Snapshots =
  S_statevector | S_cmemory | S_cregister
| S_probs | S_probs_var | S_densmat | S_densmat_var
| S_expval_pauli | S_expval_pauli_var | S_expval_pauli_shot
| S_expval_matrix | S_expval_matrix_var | S_expval_matrix_shot

datatype SnapshotDataType = D_average | D_average_var | D_pershot

datatype Sample_measure_alg = APPLY_MEASURE | PROB | HEURISTIC

text \<open>The fields of \<open>Operations::Op\<close> that the state reads.\<close>

record Op =
  op_name :: string
  op_qubits :: reg_t
  op_params :: cvector_t
  op_string_params :: "string list"
  op_mats :: "cmatrix_t list"
  op_params_expval_pauli :: "(complex \<times> string) list"
  op_params_expval_matrix :: "(complex \<times> (reg_t \<times> cmatrix_t) list) list"

text \<open>
  The calls that \<open>apply_gate\<close> makes on \<open>qreg_\<close>, one constructor per method of
  \<open>MPS\<close>, with the arguments the call passes.
\<close>

datatype mps_call =
  Apply_ccx reg_t
| Apply_u3 nat real real real
| Apply_u2 nat real real
| Apply_u1 nat real
| Apply_cnot nat nat
| Apply_x nat
| Apply_y nat
| Apply_z nat
| Apply_h nat
| Apply_s nat
| Apply_sdg nat
| Apply_sx nat
| Apply_t nat
| Apply_tdg nat
| Apply_swap nat nat bool
| Apply_cz nat nat
| Apply_cu1 nat nat real

text \<open>
  The calls that \<open>apply_snapshot\<close> makes, one constructor per snapshot routine,
  with the arguments the call passes.
\<close>

datatype snapshot_call =
  Snapshot_state Op string
| Snapshot_creg_memory Op
| Snapshot_creg_register Op
| Snapshot_probabilities Op SnapshotDataType
| Snapshot_density_matrix Op SnapshotDataType
| Snapshot_pauli_expval Op SnapshotDataType
| Snapshot_matrix_expval Op SnapshotDataType

text \<open>
  The methods of \<open>MPS\<close> (file matrix\_product\_state\_internal.hpp, not verified here)
  that the state calls. A method that mutates the register takes the register last and
  returns the new one; \<open>apply_measure\<close> also draws from the random-number engine.
  \<open>mps_default\<close> is the value of a default-constructed \<open>MPS\<close>.
\<close>

record ('mps, 'rng) MPS_interface =
  mps_default :: 'mps
  mps_num_qubits :: "'mps \<Rightarrow> nat"
  mps_get_max_bond_dimensions :: "'mps \<Rightarrow> nat"
  mps_initialize_from_statevector :: "nat \<Rightarrow> cvector_t \<Rightarrow> 'mps \<Rightarrow> 'mps"
  mps_apply_gate :: "mps_call \<Rightarrow> 'mps \<Rightarrow> 'mps"
  mps_apply_matrix :: "reg_t \<Rightarrow> cmatrix_t \<Rightarrow> 'mps \<Rightarrow> 'mps"
  mps_apply_measure :: "reg_t \<Rightarrow> 'rng \<Rightarrow> 'mps \<Rightarrow> reg_t \<times> 'mps \<times> 'rng"

text \<open>
  Modelled from the spec: \<open>MPS::initialize(const MPS &other)\<close>, the clone used by the
  clone-and-measure sampler, is missing from the verified file. The spec says ``Cloning
  (for APPLY sampling) performs a deep copy'': the receiver \<open>temp\<close> takes the value of
  \<open>other\<close> and shares nothing with it.
\<close>

definition MPS_initialize_from :: "'mps \<Rightarrow> 'mps \<Rightarrow> 'mps" where
  "MPS_initialize_from other temp = other"

text \<open>The members of \<open>Base::State\<close> that the methods below touch.\<close>

record ('mps, 'creg) State =
  qreg :: 'mps
  creg :: 'creg

text \<open>
  The process-wide settings that \<open>set_config\<close> writes: the static members of
  \<open>MPS_Tensor\<close> and \<open>MPS\<close> behind the \<open>set_...\<close> calls.
\<close>

record MPS_config =
  truncation_threshold :: real
  max_bond_dimension :: uint_t
  json_chop_threshold :: real
  omp_threshold :: uint_t
  omp_threads :: uint_t
  sample_measure_alg :: Sample_measure_alg

subsection \<open>The gate and snapshot tables\<close>

text \<open>
  The static tables \<open>State::gateset_\<close> and \<open>State::snapshotset_\<close>, in the order of
  their initialisers; a lookup is \<open>map_of\<close>.
\<close>

definition gateset :: "(string \<times> Gates) list" where
  "gateset =
    [(''id'', G_id), (''x'', G_x), (''y'', G_y), (''z'', G_z), (''s'', G_s),
     (''sdg'', G_sdg), (''h'', G_h), (''sx'', G_sx), (''t'', G_t), (''tdg'', G_tdg),
     (''p'', G_u1), (''u1'', G_u1), (''u2'', G_u2), (''u3'', G_u3), (''u'', G_u3),
     (''U'', G_u3),
     (''CX'', G_cx), (''cx'', G_cx), (''cz'', G_cz), (''cu1'', G_cu1), (''cp'', G_cu1),
     (''swap'', G_swap),
     (''ccx'', G_mcx)]"

definition snapshotset :: "(string \<times> Snapshots) list" where
  "snapshotset =
    [(''statevector'', S_statevector),
     (''probabilities'', S_probs),
     (''expectation_value_pauli'', S_expval_pauli),
     (''expectation_value_matrix'', S_expval_matrix),
     (''probabilities_with_variance'', S_probs_var),
     (''density_matrix'', S_densmat),
     (''density_matrix_with_variance'', S_densmat_var),
     (''expectation_value_pauli_with_variance'', S_expval_pauli_var),
     (''expectation_value_matrix_with_variance'', S_expval_matrix_var),
     (''expectation_value_pauli_single_shot'', S_expval_pauli_shot),
     (''expectation_value_matrix_single_shot'', S_expval_matrix_shot),
     (''memory'', S_cmemory),
     (''register'', S_cregister)]"

subsection \<open>Initialisation\<close>

text \<open>
  \<open>State::initialize_qreg(uint_t num_qubits, const matrixproductstate_t &state)\<close>:
  the dimension check, then nothing (the only statement left is a debug print under
  \<open>#ifdef DEBUG\<close>, which writes to the standard output and not to the state).
\<close>

definition initialize_qreg_mps ::
  "('mps, 'rng) MPS_interface \<Rightarrow> nat \<Rightarrow> 'mps \<Rightarrow> ('mps, 'creg) State \<Rightarrow> ('mps, 'creg) State result"
where
  "initialize_qreg_mps M num_qubits state st =
     (if mps_num_qubits M (qreg st) \<noteq> num_qubits
      then Inl (Invalid_argument
             ''MatrixProductState::State::initialize: initial state does not match qubit number'', st)
      else Inr st)"

text \<open>
  Modelled from the spec: \<open>reverse_bits\<close> and \<open>reverse_all_bits\<close> are defined in
  matrix\_product\_state\_internal.cpp, which is missing from the verified file. The spec
  says an implementation ``MUST bit-reverse external state vectors on ingest'':
  \<open>reverse_bits num len\<close> mirrors the \<open>len\<close> low bits of \<open>num\<close>, and entry \<open>i\<close> of the
  reversed vector is entry \<open>reverse_bits i num_qubits\<close> of the given one. The vector
  has \<open>2 ^ num_qubits\<close> entries, so every index read is in range.
\<close>

fun reverse_bits :: "nat \<Rightarrow> nat \<Rightarrow> nat" where
  "reverse_bits num 0 = 0"
| "reverse_bits num (Suc len) = (num mod 2) * 2 ^ len + reverse_bits (num div 2) len"

definition reverse_all_bits :: "'a list \<Rightarrow> nat \<Rightarrow> 'a list" where
  "reverse_all_bits statevector num_qubits =
     map (\<lambda>i. statevector ! reverse_bits i num_qubits) [0..<length statevector]"

text \<open>\<open>State::initialize_qreg(uint_t num_qubits, const cvector_t &statevector)\<close>.\<close>

definition initialize_qreg_statevector ::
  "('mps, 'rng) MPS_interface \<Rightarrow> nat \<Rightarrow> cvector_t \<Rightarrow> ('mps, 'creg) State \<Rightarrow> ('mps, 'creg) State result"
where
  "initialize_qreg_statevector M num_qubits statevector st =
     (if mps_num_qubits M (qreg st) \<noteq> num_qubits
      then Inl (Invalid_argument
             ''MatrixProductState::State::initialize: initial state does not match qubit number'', st)
      else
        let mps_format_state_vector = reverse_all_bits statevector num_qubits
        in Inr (st\<lparr>qreg := mps_initialize_from_statevector M num_qubits
                               mps_format_state_vector (qreg st)\<rparr>))"

text \<open>
  \<open>State::apply_initialize(qubits, params, rng)\<close>; the random-number engine is not
  used by the body. \<open>std::sort\<close> on qubit numbers is \<open>sort\<close>.
\<close>

definition apply_initialize ::
  "('mps, 'rng) MPS_interface \<Rightarrow> reg_t \<Rightarrow> cvector_t \<Rightarrow> ('mps, 'creg) State \<Rightarrow> ('mps, 'creg) State result"
where
  "apply_initialize M qubits params st =
     (let partial = Inl (Invalid_argument ''MPS_State: Partial initialization not supported yet.'', st)
      in if length qubits = mps_num_qubits M (qreg st)
         then
           let sorted_qubits = sort qubits
           in if qubits = sorted_qubits
              then initialize_qreg_statevector M (length qubits) params st
              else partial
         else partial)"

text \<open>
  The two orders in which a list of bits, one per qubit, indexes an amplitude vector:
  qubit 0 as the least-significant bit (the external order) and qubit 0 as the
  most-significant bit (the opposite order, which the source says is the internal one).
\<close>

definition external_index :: "nat list \<Rightarrow> nat" where
  "external_index bits = (\<Sum>k<length bits. bits ! k * 2 ^ k)"

definition internal_index :: "nat list \<Rightarrow> nat" where
  "internal_index bits = (\<Sum>k<length bits. bits ! k * 2 ^ (length bits - 1 - k))"

subsection \<open>Configuration\<close>

text \<open>
  Modelled from the spec: \<open>JSON::get_value(var, key, config)\<close> is declared in
  framework/json.hpp, missing from the verified file. The spec gives every
  configuration key a default, which holds when the key is not set: \<open>get_value\<close>
  returns false when the key is absent from the configuration, and otherwise stores in
  \<open>var\<close> the value at the key, converted to the type of \<open>var\<close>. The configuration
  is a map from keys to JSON values; the conversions are parameters.
\<close>

definition JSON_get_value :: "('json \<Rightarrow> 'a) \<Rightarrow> string \<Rightarrow> (string \<rightharpoonup> 'json) \<Rightarrow> 'a option" where
  "JSON_get_value conv key config = map_option conv (config key)"

record 'json JSON_interface =
  json_double :: "'json \<Rightarrow> real"
  json_uint :: "'json \<Rightarrow> uint_t"
  json_string :: "'json \<Rightarrow> string"

text \<open>
  \<open>State::set_config(const json_t &config)\<close>. The chop threshold is read into a
  \<open>uint_t\<close> and converted to \<open>double\<close> by the setter; an algorithm name that is
  neither of the two known ones leaves the setting as it was.
\<close>

definition set_config ::
  "'json JSON_interface \<Rightarrow> (string \<rightharpoonup> 'json) \<Rightarrow> MPS_config \<Rightarrow> MPS_config"
where
  "set_config J config g0 =
    (let g1 = (case JSON_get_value (json_double J) ''matrix_product_state_truncation_threshold'' config of
                 Some threshold \<Rightarrow> g0\<lparr>truncation_threshold := threshold\<rparr>
               | None \<Rightarrow> g0\<lparr>truncation_threshold := 1 / 10 ^ 16\<rparr>);
         g2 = (case JSON_get_value (json_uint J) ''matrix_product_state_max_bond_dimension'' config of
                 Some max_bond_dimension' \<Rightarrow> g1\<lparr>max_bond_dimension := max_bond_dimension'\<rparr>
               | None \<Rightarrow> g1\<lparr>max_bond_dimension := 0xFFFFFFFFFFFFFFFF\<rparr>);
         g3 = (case JSON_get_value (json_uint J) ''chop_threshold'' config of
                 Some json_chop_threshold' \<Rightarrow> g2\<lparr>json_chop_threshold := real (unat json_chop_threshold')\<rparr>
               | None \<Rightarrow> g2\<lparr>json_chop_threshold := 1 / 10 ^ 8\<rparr>);
         g4 = (case JSON_get_value (json_uint J) ''mps_parallel_threshold'' config of
                 Some omp_qubit_threshold \<Rightarrow> g3\<lparr>omp_threshold := omp_qubit_threshold\<rparr>
               | None \<Rightarrow> g3\<lparr>omp_threshold := 14\<rparr>);
         g5 = (case JSON_get_value (json_uint J) ''mps_omp_threads'' config of
                 Some omp_threads' \<Rightarrow> g4\<lparr>omp_threads := omp_threads'\<rparr>
               | None \<Rightarrow> g4\<lparr>omp_threads := 1\<rparr>)
     in (case JSON_get_value (json_string J) ''mps_sample_measure_algorithm'' config of
           Some alg \<Rightarrow>
             if alg = ''mps_probabilities'' then g5\<lparr>sample_measure_alg := PROB\<rparr>
             else if alg = ''mps_apply_measure'' then g5\<lparr>sample_measure_alg := APPLY_MEASURE\<rparr>
             else g5
         | None \<Rightarrow> g5\<lparr>sample_measure_alg := HEURISTIC\<rparr>))"

subsection \<open>Gates\<close>

text \<open>
  \<open>std::vector::operator[]\<close> does not check its index: reading past the end is
  undefined behaviour, which the model reports as an error of its own.
\<close>

definition out_of_range :: error where
  "out_of_range = Undefined_behaviour ''vector subscript out of range''"

definition quoted :: "string \<Rightarrow> string" where
  "quoted name = [CHR 0x27] @ name @ [CHR 0x27] @ ''.''"

text \<open>
  The \<open>switch\<close> of \<open>apply_gate\<close>: the call made on \<open>qreg_\<close> for each gate, \<open>None\<close>
  for the identity, which makes no call. The \<open>default\<close> branch of the source handles
  members of \<open>Gates\<close> that \<open>gateset_\<close> does not contain and is not reachable.
\<close>

fun gate_call :: "Gates \<Rightarrow> Op \<Rightarrow> error + mps_call option" where
  "gate_call G_mcx op = Inr (Some (Apply_ccx (op_qubits op)))"
| "gate_call G_u3 op =
     (if 1 \<le> length (op_qubits op) \<and> 3 \<le> length (op_params op)
      then Inr (Some (Apply_u3 (op_qubits op ! 0)
                  (Re (op_params op ! 0)) (Re (op_params op ! 1)) (Re (op_params op ! 2))))
      else Inl out_of_range)"
| "gate_call G_u2 op =
     (if 1 \<le> length (op_qubits op) \<and> 2 \<le> length (op_params op)
      then Inr (Some (Apply_u2 (op_qubits op ! 0) (Re (op_params op ! 0)) (Re (op_params op ! 1))))
      else Inl out_of_range)"
| "gate_call G_u1 op =
     (if 1 \<le> length (op_qubits op) \<and> 1 \<le> length (op_params op)
      then Inr (Some (Apply_u1 (op_qubits op ! 0) (Re (op_params op ! 0))))
      else Inl out_of_range)"
| "gate_call G_cx op =
     (if 2 \<le> length (op_qubits op)
      then Inr (Some (Apply_cnot (op_qubits op ! 0) (op_qubits op ! 1)))
      else Inl out_of_range)"
| "gate_call G_id op = Inr None"
| "gate_call G_x op =
     (if 1 \<le> length (op_qubits op) then Inr (Some (Apply_x (op_qubits op ! 0))) else Inl out_of_range)"
| "gate_call G_y op =
     (if 1 \<le> length (op_qubits op) then Inr (Some (Apply_y (op_qubits op ! 0))) else Inl out_of_range)"
| "gate_call G_z op =
     (if 1 \<le> length (op_qubits op) then Inr (Some (Apply_z (op_qubits op ! 0))) else Inl out_of_range)"
| "gate_call G_h op =
     (if 1 \<le> length (op_qubits op) then Inr (Some (Apply_h (op_qubits op ! 0))) else Inl out_of_range)"
| "gate_call G_s op =
     (if 1 \<le> length (op_qubits op) then Inr (Some (Apply_s (op_qubits op ! 0))) else Inl out_of_range)"
| "gate_call G_sdg op =
     (if 1 \<le> length (op_qubits op) then Inr (Some (Apply_sdg (op_qubits op ! 0))) else Inl out_of_range)"
| "gate_call G_sx op =
     (if 1 \<le> length (op_qubits op) then Inr (Some (Apply_sx (op_qubits op ! 0))) else Inl out_of_range)"
| "gate_call G_t op =
     (if 1 \<le> length (op_qubits op) then Inr (Some (Apply_t (op_qubits op ! 0))) else Inl out_of_range)"
| "gate_call G_tdg op =
     (if 1 \<le> length (op_qubits op) then Inr (Some (Apply_tdg (op_qubits op ! 0))) else Inl out_of_range)"
| "gate_call G_swap op =
     (if 2 \<le> length (op_qubits op)
      then Inr (Some (Apply_swap (op_qubits op ! 0) (op_qubits op ! 1) True))
      else Inl out_of_range)"
| "gate_call G_cz op =
     (if 2 \<le> length (op_qubits op)
      then Inr (Some (Apply_cz (op_qubits op ! 0) (op_qubits op ! 1)))
      else Inl out_of_range)"
| "gate_call G_cu1 op =
     (if 2 \<le> length (op_qubits op) \<and> 1 \<le> length (op_params op)
      then Inr (Some (Apply_cu1 (op_qubits op ! 0) (op_qubits op ! 1) (Re (op_params op ! 0))))
      else Inl out_of_range)"

text \<open>\<open>State::apply_gate(const Operations::Op &op)\<close>.\<close>

definition apply_gate ::
  "('mps, 'rng) MPS_interface \<Rightarrow> Op \<Rightarrow> ('mps, 'creg) State \<Rightarrow> ('mps, 'creg) State result"
where
  "apply_gate M op st =
     (case map_of gateset (op_name op) of
        None \<Rightarrow>
          Inl (Invalid_argument
                 (''MatrixProductState::State::invalid gate instruction '' @ quoted (op_name op)), st)
      | Some g \<Rightarrow>
          (case gate_call g op of
             Inl e \<Rightarrow> Inl (e, st)
           | Inr None \<Rightarrow> Inr st
           | Inr (Some c) \<Rightarrow> Inr (st\<lparr>qreg := mps_apply_gate M c (qreg st)\<rparr>)))"

subsection \<open>Snapshots\<close>

text \<open>
  \<open>State::apply_snapshot(op, result)\<close>. A snapshot routine works on the state and on
  the experiment result, which the model passes as a pair; the routines themselves are
  the parameter \<open>snapshot\<close>, called with what the \<open>switch\<close> selects. As for gates,
  the \<open>default\<close> branch is not reachable.
\<close>

definition apply_snapshot ::
  "(snapshot_call \<Rightarrow> 's \<Rightarrow> 's result) \<Rightarrow> Op \<Rightarrow> 's \<Rightarrow> 's result"
where
  "apply_snapshot snapshot op sr =
     (case map_of snapshotset (op_name op) of
        None \<Rightarrow>
          Inl (Invalid_argument
                 (''MatrixProductState::invalid snapshot instruction '' @ quoted (op_name op)), sr)
      | Some which \<Rightarrow>
          (case which of
             S_statevector \<Rightarrow> snapshot (Snapshot_state op ''statevector'') sr
           | S_cmemory \<Rightarrow> snapshot (Snapshot_creg_memory op) sr
           | S_cregister \<Rightarrow> snapshot (Snapshot_creg_register op) sr
           | S_probs \<Rightarrow> snapshot (Snapshot_probabilities op D_average) sr
           | S_densmat \<Rightarrow> snapshot (Snapshot_density_matrix op D_average) sr
           | S_expval_pauli \<Rightarrow> snapshot (Snapshot_pauli_expval op D_average) sr
           | S_expval_matrix \<Rightarrow> snapshot (Snapshot_matrix_expval op D_average) sr
           | S_probs_var \<Rightarrow> snapshot (Snapshot_probabilities op D_average_var) sr
           | S_densmat_var \<Rightarrow> snapshot (Snapshot_density_matrix op D_average_var) sr
           | S_expval_pauli_var \<Rightarrow> snapshot (Snapshot_pauli_expval op D_average_var) sr
           | S_expval_matrix_var \<Rightarrow> snapshot (Snapshot_matrix_expval op D_average_var) sr
           | S_expval_pauli_shot \<Rightarrow> snapshot (Snapshot_pauli_expval op D_pershot) sr
           | S_expval_matrix_shot \<Rightarrow> snapshot (Snapshot_matrix_expval op D_pershot) sr))"

subsection \<open>Matrices\<close>

text \<open>\<open>State::apply_matrix(const reg_t &qubits, const cmatrix_t &mat)\<close>.\<close>

definition apply_matrix ::
  "('mps, 'rng) MPS_interface \<Rightarrow> reg_t \<Rightarrow> cmatrix_t \<Rightarrow> ('mps, 'creg) State \<Rightarrow> ('mps, 'creg) State result"
where
  "apply_matrix M qubits mat st =
     (if qubits \<noteq> [] \<and> mat_size mat > 0
      then Inr (st\<lparr>qreg := mps_apply_matrix M qubits mat (qreg st)\<rparr>)
      else Inr st)"

subsection \<open>Measurement and reset\<close>

text \<open>
  \<open>State::apply_measure(qubits, cmemory, cregister, rng)\<close>; \<open>store_measure\<close> is the
  method of the classical register that records an outcome.
\<close>

definition apply_measure ::
  "('mps, 'rng) MPS_interface \<Rightarrow> (reg_t \<Rightarrow> reg_t \<Rightarrow> reg_t \<Rightarrow> 'creg \<Rightarrow> 'creg) \<Rightarrow>
   reg_t \<Rightarrow> reg_t \<Rightarrow> reg_t \<Rightarrow> ('mps, 'creg) State \<times> 'rng \<Rightarrow> ('mps, 'creg) State \<times> 'rng"
where
  "apply_measure M store_measure qubits cmemory cregister sr =
     (case mps_apply_measure M qubits (snd sr) (qreg (fst sr)) of
        (outcome, q, rng) \<Rightarrow>
          ((fst sr)\<lparr>qreg := q, creg := store_measure outcome cmemory cregister (creg (fst sr))\<rparr>, rng))"

text \<open>
  The loop of \<open>State::measure_reset_update(qubits, final_state, meas_state)\<close> from
  index \<open>i\<close> on, on the register \<open>q\<close>.
\<close>

function measure_reset_update_from ::
  "('mps, 'rng) MPS_interface \<Rightarrow> reg_t \<Rightarrow> nat \<Rightarrow> reg_t \<Rightarrow> nat \<Rightarrow> 'mps \<Rightarrow> 'mps result"
where
  "measure_reset_update_from M qubits final_state meas_state i q =
     (if i < length qubits
      then
        if i < length meas_state
        then measure_reset_update_from M qubits final_state meas_state (Suc i)
               (if meas_state ! i \<noteq> final_state
                then mps_apply_gate M (Apply_x (qubits ! i)) q
                else q)
        else Inl (out_of_range, q)
      else Inr q)"
  by pat_completeness auto
termination
  by (relation "measure (\<lambda>(M, qubits, final_state, meas_state, i, q). length qubits - i)") auto

declare measure_reset_update_from.simps [simp del]

definition measure_reset_update ::
  "('mps, 'rng) MPS_interface \<Rightarrow> reg_t \<Rightarrow> nat \<Rightarrow> reg_t \<Rightarrow> ('mps, 'creg) State \<Rightarrow> ('mps, 'creg) State result"
where
  "measure_reset_update M qubits final_state meas_state st =
     (case measure_reset_update_from M qubits final_state meas_state 0 (qreg st) of
        Inl (e, q) \<Rightarrow> Inl (e, st\<lparr>qreg := q\<rparr>)
      | Inr q \<Rightarrow> Inr (st\<lparr>qreg := q\<rparr>))"

text \<open>\<open>State::apply_reset(qubits, rng)\<close>.\<close>

definition apply_reset ::
  "('mps, 'rng) MPS_interface \<Rightarrow> reg_t \<Rightarrow> ('mps, 'creg) State \<times> 'rng \<Rightarrow> (('mps, 'creg) State \<times> 'rng) result"
where
  "apply_reset M qubits sr =
     (case mps_apply_measure M qubits (snd sr) (qreg (fst sr)) of
        (outcome, q, rng) \<Rightarrow>
          (case measure_reset_update M qubits 0 outcome ((fst sr)\<lparr>qreg := q\<rparr>) of
             Inl (e, st) \<Rightarrow> Inl (e, (st, rng))
           | Inr st \<Rightarrow> Inr (st, rng)))"

text \<open>
  Modelled from the spec: what measurement and the X gate do to a register is decided
  in the missing class \<open>MPS\<close>. The spec says \<open>measure(qubits)\<close> ``returns a bitstring
  \<dots> and collapses the state'', one bit per target, and X is the bit flip. With
  \<open>in_state q k b\<close> read as ``qubit \<open>k\<close> of register \<open>q\<close> is in the basis state
  \<open>b\<close>'', an implementation \<open>M\<close> meets the contract when a measurement returns one bit
  per target and leaves each target in the state of its bit, and when X on qubit \<open>k\<close>
  flips a basis state of \<open>k\<close> and keeps the basis states of the other qubits.
\<close>

definition measurement_contract ::
  "('mps, 'rng) MPS_interface \<Rightarrow> ('mps \<Rightarrow> nat \<Rightarrow> nat \<Rightarrow> bool) \<Rightarrow> bool"
where
  "measurement_contract M in_state \<longleftrightarrow>
     (\<forall>qubits rng q outcome q' rng'.
        mps_apply_measure M qubits rng q = (outcome, q', rng') \<longrightarrow>
          length outcome = length qubits \<and>
          (\<forall>i<length qubits. outcome ! i \<le> 1 \<and> in_state q' (qubits ! i) (outcome ! i))) \<and>
     (\<forall>q k b. in_state q k b \<longrightarrow> b \<le> 1 \<longrightarrow> in_state (mps_apply_gate M (Apply_x k) q) k (1 - b)) \<and>
     (\<forall>q k j b. j \<noteq> k \<longrightarrow> in_state q j b \<longrightarrow> in_state (mps_apply_gate M (Apply_x k) q) j b)"

text \<open>The qubits that a reset flips: those whose outcome is 1, in the order of the list.\<close>

definition flipped_qubits :: "reg_t \<Rightarrow> reg_t \<Rightarrow> reg_t" where
  "flipped_qubits qubits outcome = map fst (filter (\<lambda>(k, b). b = 1) (zip qubits outcome))"

definition apply_x_all :: "('mps, 'rng) MPS_interface \<Rightarrow> reg_t \<Rightarrow> 'mps \<Rightarrow> 'mps" where
  "apply_x_all M ks q = foldl (\<lambda>q k. mps_apply_gate M (Apply_x k) q) q ks"

subsection \<open>Sampling\<close>



text \<open>
  The selection as the specification words it, for \<open>N\<close> qubits, maximum bond dimension
  \<open>D\<close> and \<open>m\<close> shots under the heuristic policy: the constants \<open>(c, r)\<close> of each
  band of \<open>D\<close>, and the choice.
\<close>

definition heuristic_band :: "nat \<Rightarrow> (real \<times> real) option" where
  "heuristic_band D =
     (if D \<le> 2 then Some (12, 185 / 100)
      else if D \<le> 4 then Some (3, 175 / 100)
      else if D \<le> 8 then Some (25 / 10, 165 / 100)
      else if D \<le> 16 then Some (5 / 10, 175 / 100)
      else None)"


text \<open>
  The local variables of \<open>State::sample_measure_using_apply_measure\<close>, together with
  the member \<open>qreg_\<close> it reads. \<open>qreg_\<close> and \<open>temp\<close> are two objects.
\<close>

record ('mps, 'rng) sampler =
  this_qreg :: 'mps
  temp :: 'mps
  all_samples :: "reg_t list"
  single_result :: reg_t
  rng_engine :: 'rng

text \<open>
  The \<open>for\<close> loop, from the counter \<open>i\<close> on; the bound \<open>n\<close> is
  \<open>static_cast<int_t>(shots)\<close>.
\<close>

function sample_loop ::
  "('mps, 'rng) MPS_interface \<Rightarrow> reg_t \<Rightarrow> int \<Rightarrow> int \<Rightarrow> ('mps, 'rng) sampler \<Rightarrow> ('mps, 'rng) sampler"
where
  "sample_loop M qubits n i s =
     (if i < n
      then
        let t0 = MPS_initialize_from (this_qreg s) (temp s)
        in case mps_apply_measure M qubits (rng_engine s) t0 of
             (r, t1, g) \<Rightarrow>
               sample_loop M qubits n (i + 1)
                 (s\<lparr>temp := t1, single_result := r,
                    all_samples := (all_samples s)[nat i := r], rng_engine := g\<rparr>)
      else s)"
  by pat_completeness auto
termination
  by (relation "measure (\<lambda>(M, qubits, n, i, s). nat (n - i))") auto

declare sample_loop.simps [simp del]

text \<open>
  \<open>State::sample_measure_using_apply_measure(qubits, shots, rng)\<close>: on normal
  return the samples, the member \<open>qreg_\<close> and the random-number engine; on a throw
  the member \<open>qreg_\<close> and the random-number engine as the exception leaves them.
  \<open>all_samples.resize(shots)\<close> makes \<open>shots\<close> empty samples, and throws
  \<open>std::length_error\<close>, before the loop, when \<open>shots\<close> exceeds the \<open>max_size()\<close>
  of the vector. \<open>max_size\<close> is fixed by the C++ library (at most \<open>PTRDIFF_MAX\<close>
  divided by the size of an element, hence below \<open>2 ^ 63\<close>) and is a parameter of
  the model; memory for a vector within \<open>max_size\<close> is taken to be available.
\<close>

definition sample_measure_using_apply_measure ::
  "('mps, 'rng) MPS_interface \<Rightarrow> nat \<Rightarrow> reg_t \<Rightarrow> uint_t \<Rightarrow> 'mps \<times> 'rng \<Rightarrow>
   (error \<times> 'mps \<times> 'rng) + (reg_t list \<times> 'mps \<times> 'rng)"
where
  "sample_measure_using_apply_measure M max_size qubits shots qr =
     (if max_size < unat shots
      then Inl (Length_error, qr)
      else
        let s0 = \<lparr>this_qreg = fst qr, temp = mps_default M,
                   all_samples = replicate (unat shots) [], single_result = [],
                   rng_engine = snd qr\<rparr>;
            s = sample_loop M qubits (sint shots) 0 s0
        in Inr (all_samples s, this_qreg s, rng_engine s))"

text \<open>
  What the sampler is meant to return: \<open>k\<close> shots, each a measurement of a register
  equal to \<open>q\<close>, with the random-number engine passed from one shot to the next.
\<close>

fun measure_clones ::
  "('mps, 'rng) MPS_interface \<Rightarrow> reg_t \<Rightarrow> 'mps \<Rightarrow> nat \<Rightarrow> 'rng \<Rightarrow> reg_t list \<times> 'rng"
where
  "measure_clones M qubits q 0 g = ([], g)"
| "measure_clones M qubits q (Suc k) g =
     (case mps_apply_measure M qubits g q of
        (r, t, g') \<Rightarrow>
          (case measure_clones M qubits q k g' of (rs, g'') \<Rightarrow> (r # rs, g'')))"

subsection \<open>A register for concrete runs\<close>

text \<open>
  The simplest implementation of the interface: a register in a computational-basis
  state, given by its width and the set of its qubits in state 1. X flips a qubit,
  a measurement reads the qubits (it is deterministic on a basis state) and steps the
  random-number engine, a counter. The theorems below are instantiated with it.
\<close>

type_synonym basis_register = "nat \<times> nat set"

definition basis_apply_gate :: "mps_call \<Rightarrow> basis_register \<Rightarrow> basis_register" where
  "basis_apply_gate c q =
     (case c of
        Apply_x k \<Rightarrow> (fst q, if k \<in> snd q then snd q - {k} else insert k (snd q))
      | _ \<Rightarrow> q)"

definition basis_apply_measure ::
  "reg_t \<Rightarrow> nat \<Rightarrow> basis_register \<Rightarrow> reg_t \<times> basis_register \<times> nat" where
  "basis_apply_measure qubits rng q = (map (\<lambda>k. if k \<in> snd q then 1 else 0) qubits, q, Suc rng)"

definition basis_interface :: "(basis_register, nat) MPS_interface" where
  "basis_interface =
     \<lparr>mps_default = (0, {}),
      mps_num_qubits = fst,
      mps_get_max_bond_dimensions = (\<lambda>q. 1),
      mps_initialize_from_statevector = (\<lambda>n v q. (n, {})),
      mps_apply_gate = basis_apply_gate,
      mps_apply_matrix = (\<lambda>qubits mat q. q),
      mps_apply_measure = basis_apply_measure\<rparr>"

definition basis_in_state :: "basis_register \<Rightarrow> nat \<Rightarrow> nat \<Rightarrow> bool" where
  "basis_in_state q k b \<longleftrightarrow> b = (if k \<in> snd q then 1 else 0)"

section \<open>Theorems\<close>

subsection \<open>Initialisation\<close>

text \<open>
  C8. \<open>initialize_qreg(num_qubits, state)\<close> taking another register fails with a
  dimension diagnostic whenever \<open>num_qubits\<close> differs from the register's qubit count;
  when the counts match it returns normally with the state as it was: the given
  register is not copied and nothing is reported.
\<close>

theorem initialize_qreg_mps_unimplemented:
  "(mps_num_qubits M (qreg st) \<noteq> num_qubits \<longrightarrow>
      initialize_qreg_mps M num_qubits state st =
        Inl (Invalid_argument
          ''MatrixProductState::State::initialize: initial state does not match qubit number'', st)) \<and>
   (mps_num_qubits M (qreg st) = num_qubits \<longrightarrow>
      initialize_qreg_mps M num_qubits state st = Inr st)"
  by (simp add: initialize_qreg_mps_def)

text \<open>
  A two-qubit register in state 00, asked to take over a two-qubit register in state
  10: with the wrong count the call throws, with the right count it returns and the
  register is still in state 00.
\<close>

theorem initialize_qreg_mps_unimplemented_witness:
  "initialize_qreg_mps basis_interface 3 (2, {1}) \<lparr>qreg = (2, {}), creg = ()\<rparr> =
     Inl (Invalid_argument
       ''MatrixProductState::State::initialize: initial state does not match qubit number'',
       \<lparr>qreg = (2, {}), creg = ()\<rparr>) \<and>
   initialize_qreg_mps basis_interface 2 (2, {1}) \<lparr>qreg = (2, {}), creg = ()\<rparr> =
     Inr \<lparr>qreg = (2, {}), creg = ()\<rparr> \<and>
   qreg \<lparr>qreg = (2, {}), creg = ()\<rparr> \<noteq> (2, {1::nat})"
  using initialize_qreg_mps_unimplemented [of basis_interface "\<lparr>qreg = (2, {}), creg = ()\<rparr>" 3 "(2, {1})"]
    initialize_qreg_mps_unimplemented [of basis_interface "\<lparr>qreg = (2, {}), creg = ()\<rparr>" 2 "(2, {1})"]
  by (simp add: basis_interface_def)

lemma distinct_proper_subset_shorter:
  assumes "distinct qubits" and "set qubits \<subset> {0..<n}"
  shows "length qubits < n"
proof -
  have "card (set qubits) < card {0..<n}"
    using assms(2) by (intro psubset_card_mono) auto
  with assms(1) show ?thesis
    by (simp add: distinct_card)
qed

lemma basis_two_qubits:
  "mps_num_qubits basis_interface (qreg \<lparr>qreg = (2, X), creg = ()\<rparr>) = 2"
  by (simp add: basis_interface_def)

text \<open>
  C5, as the code has it. \<open>apply_initialize\<close> takes the path through
  \<open>initialize_qreg\<close> exactly when \<open>qubits\<close> has as many entries as the register has
  qubits and is in ascending order; in every other case it throws the ``not
  supported'' diagnostic and leaves the state as it was. So a list without repetition
  of qubits of the register that omits at least one of them is rejected, and such a
  list takes the initialisation path only when it contains all qubits of the register.
\<close>

theorem apply_initialize_paths:
  "(length qubits = mps_num_qubits M (qreg st) \<and> sorted qubits \<longrightarrow>
      apply_initialize M qubits params st =
        Inr (st\<lparr>qreg := mps_initialize_from_statevector M (length qubits)
                            (reverse_all_bits params (length qubits)) (qreg st)\<rparr>)) \<and>
   (length qubits \<noteq> mps_num_qubits M (qreg st) \<or> \<not> sorted qubits \<longrightarrow>
      apply_initialize M qubits params st =
        Inl (Invalid_argument ''MPS_State: Partial initialization not supported yet.'', st)) \<and>
   (distinct qubits \<and> set qubits \<subset> {0..<mps_num_qubits M (qreg st)} \<longrightarrow>
      apply_initialize M qubits params st =
        Inl (Invalid_argument ''MPS_State: Partial initialization not supported yet.'', st)) \<and>
   (distinct qubits \<and> set qubits \<subseteq> {0..<mps_num_qubits M (qreg st)} \<and>
    (\<exists>st'. apply_initialize M qubits params st = Inr st') \<longrightarrow>
      set qubits = {0..<mps_num_qubits M (qreg st)})"
proof -
  have full: "apply_initialize M qubits params st =
        Inr (st\<lparr>qreg := mps_initialize_from_statevector M (length qubits)
                            (reverse_all_bits params (length qubits)) (qreg st)\<rparr>)"
    if "length qubits = mps_num_qubits M (qreg st) \<and> sorted qubits"
  proof -
    have "sort qubits = qubits"
      using that by (simp add: sorted_sort_id)
    then show ?thesis
      using that by (simp add: apply_initialize_def initialize_qreg_statevector_def Let_def)
  qed
  have part: "apply_initialize M qubits params st =
        Inl (Invalid_argument ''MPS_State: Partial initialization not supported yet.'', st)"
    if "length qubits \<noteq> mps_num_qubits M (qreg st) \<or> \<not> sorted qubits"
  proof -
    have "length qubits \<noteq> mps_num_qubits M (qreg st) \<or> qubits \<noteq> sort qubits"
      using that by (metis sorted_sort)
    then show ?thesis
      by (auto simp: apply_initialize_def Let_def)
  qed
  have proper: "apply_initialize M qubits params st =
        Inl (Invalid_argument ''MPS_State: Partial initialization not supported yet.'', st)"
    if "distinct qubits \<and> set qubits \<subset> {0..<mps_num_qubits M (qreg st)}"
  proof -
    have "length qubits < mps_num_qubits M (qreg st)"
      using that by (intro distinct_proper_subset_shorter) simp_all
    then show ?thesis
      by (intro part) simp
  qed
  have only: "set qubits = {0..<mps_num_qubits M (qreg st)}"
    if "distinct qubits \<and> set qubits \<subseteq> {0..<mps_num_qubits M (qreg st)} \<and>
        (\<exists>st'. apply_initialize M qubits params st = Inr st')"
  proof (rule ccontr)
    assume "set qubits \<noteq> {0..<mps_num_qubits M (qreg st)}"
    with that have "distinct qubits \<and> set qubits \<subset> {0..<mps_num_qubits M (qreg st)}"
      by blast
    then have "apply_initialize M qubits params st =
        Inl (Invalid_argument ''MPS_State: Partial initialization not supported yet.'', st)"
      by (rule proper)
    with that show False
      by auto
  qed
  show ?thesis
    using full part proper only by blast
qed

text \<open>
  C5, as the specification words it, rejects every proper subset and initialises only
  when all qubits are listed. The code tests the length and the order of the list, not
  its entries: on a two-qubit register the list \<open>[0, 0]\<close> names qubit 0 only and is
  initialised all the same.
\<close>

theorem apply_initialize_repeated_counterexample:
  "set [0, 0] \<subset> {0..<mps_num_qubits basis_interface (qreg \<lparr>qreg = (2, {1}), creg = ()\<rparr>)} \<and>
   apply_initialize basis_interface [0, 0] [0, 1, 0, 0] \<lparr>qreg = (2, {1}), creg = ()\<rparr> =
     Inr \<lparr>qreg = (2, {}), creg = ()\<rparr>"
proof -
  have "set [0, 0 :: nat] \<subset> {0..<2}"
  proof
    show "set [0, 0 :: nat] \<subseteq> {0..<2}" by simp
    show "set [0, 0 :: nat] \<noteq> {0..<2}"
    proof
      assume "set [0, 0 :: nat] = {0..<2}"
      then have "(1 :: nat) \<in> set [0, 0]" by simp
      then show False by simp
    qed
  qed
  then have "set [0, 0] \<subset> {0..<mps_num_qubits basis_interface (qreg \<lparr>qreg = (2, {1}), creg = ()\<rparr>)}"
    by (simp only: basis_two_qubits)
  moreover have "apply_initialize basis_interface [0, 0] [0, 1, 0, 0] \<lparr>qreg = (2, {1}), creg = ()\<rparr> =
     Inr \<lparr>qreg = (2, {}), creg = ()\<rparr>"
    by (simp add: apply_initialize_def initialize_qreg_statevector_def basis_interface_def)
  ultimately show ?thesis ..
qed

text \<open>
  On a two-qubit register the list \<open>[0, 1]\<close> is initialised and holds both qubits;
  the list \<open>[0]\<close> is rejected.
\<close>

theorem apply_initialize_paths_witness:
  "apply_initialize basis_interface [0, 1] [0, 1, 0, 0] \<lparr>qreg = (2, {1}), creg = ()\<rparr> =
     Inr \<lparr>qreg = (2, {}), creg = ()\<rparr> \<and>
   set [0, 1] = {0..<mps_num_qubits basis_interface (qreg \<lparr>qreg = (2, {1}), creg = ()\<rparr>)} \<and>
   distinct [0 :: nat] \<and>
   set [0] \<subset> {0..<mps_num_qubits basis_interface (qreg \<lparr>qreg = (2, {1}), creg = ()\<rparr>)} \<and>
   apply_initialize basis_interface [0] [0, 1] \<lparr>qreg = (2, {1}), creg = ()\<rparr> =
     Inl (Invalid_argument ''MPS_State: Partial initialization not supported yet.'',
          \<lparr>qreg = (2, {1}), creg = ()\<rparr>)"
proof -
  let ?st = "\<lparr>qreg = (2, {1 :: nat}), creg = ()\<rparr>"
  have n: "mps_num_qubits basis_interface (qreg ?st) = 2"
    by (rule basis_two_qubits)
  have f: "length [0, 1 :: nat] = mps_num_qubits basis_interface (qreg ?st) \<and> sorted [0, 1 :: nat]"
    unfolding n by simp
  have a: "apply_initialize basis_interface [0, 1] [0, 1, 0, 0] ?st = Inr \<lparr>qreg = (2, {}), creg = ()\<rparr>"
    using apply_initialize_paths [of "[0, 1]" basis_interface ?st "[0, 1, 0, 0]"] f
    by (simp add: basis_interface_def)
  have s: "distinct [0, 1 :: nat] \<and> set [0, 1] \<subseteq> {0..<mps_num_qubits basis_interface (qreg ?st)} \<and>
      (\<exists>st'. apply_initialize basis_interface [0, 1] [0, 1, 0, 0] ?st = Inr st')"
    unfolding n a by simp
  have b: "set [0, 1] = {0..<mps_num_qubits basis_interface (qreg ?st)}"
    using apply_initialize_paths [of "[0, 1]" basis_interface ?st "[0, 1, 0, 0]"] s
    by blast
  have h1: "distinct [0 :: nat]" by simp
  have "set [0 :: nat] \<subset> {0..<2}"
  proof
    show "set [0 :: nat] \<subseteq> {0..<2}" by simp
    show "set [0 :: nat] \<noteq> {0..<2}"
    proof
      assume "set [0 :: nat] = {0..<2}"
      then have "(1 :: nat) \<in> set [0]" by simp
      then show False by simp
    qed
  qed
  then have h2: "set [0] \<subset> {0..<mps_num_qubits basis_interface (qreg ?st)}"
    by (simp only: n)
  have c: "apply_initialize basis_interface [0] [0, 1] ?st =
     Inl (Invalid_argument ''MPS_State: Partial initialization not supported yet.'', ?st)"
    using apply_initialize_paths [of "[0]" basis_interface ?st "[0, 1]"] h1 h2
    by blast
  show ?thesis
    using a b h1 h2 c by (intro conjI)
qed

text \<open>
  C9. When \<open>qubits\<close> holds exactly the qubits of the register but not in ascending
  order, \<open>apply_initialize\<close> throws the partial-initialisation diagnostic and leaves
  the state as it was.
\<close>

theorem apply_initialize_unsorted:
  assumes "set qubits = {0..<mps_num_qubits M (qreg st)}"
    and "\<not> sorted qubits"
  shows "apply_initialize M qubits params st =
           Inl (Invalid_argument ''MPS_State: Partial initialization not supported yet.'', st)"
proof -
  have "qubits \<noteq> sort qubits"
  proof
    assume "qubits = sort qubits"
    then have "sorted qubits"
      by (metis sorted_sort)
    with assms(2) show False ..
  qed
  then show ?thesis
    by (simp add: apply_initialize_def Let_def)
qed

theorem apply_initialize_unsorted_witness:
  "set [1, 0] = {0..<mps_num_qubits basis_interface (qreg \<lparr>qreg = (2, {}), creg = ()\<rparr>)} \<and>
   \<not> sorted [1, 0 :: nat] \<and>
   apply_initialize basis_interface [1, 0] [0, 1, 0, 0] \<lparr>qreg = (2, {}), creg = ()\<rparr> =
     Inl (Invalid_argument ''MPS_State: Partial initialization not supported yet.'',
          \<lparr>qreg = (2, {}), creg = ()\<rparr>)"
proof -
  have "set [1, 0 :: nat] = {0..<2}"
    by auto
  then have h1: "set [1, 0] = {0..<mps_num_qubits basis_interface (qreg \<lparr>qreg = (2, {}), creg = ()\<rparr>)}"
    by (simp only: basis_two_qubits)
  have h2: "\<not> sorted [1, 0 :: nat]" by simp
  show ?thesis
    using h1 h2 apply_initialize_unsorted [OF h1 h2, of "[0, 1, 0, 0]"] by blast
qed

subsection \<open>Bit order of an initial state vector\<close>

lemma bit_sum_split:
  fixes c :: "nat \<Rightarrow> nat"
  shows "(\<Sum>k<Suc n. c k * 2 ^ k) = c 0 + 2 * (\<Sum>k<n. c (Suc k) * 2 ^ k)"
  by (simp add: sum.lessThan_Suc_shift sum_distrib_left mult_ac del: sum.lessThan_Suc)

lemma bit_sum_less:
  fixes c :: "nat \<Rightarrow> nat"
  assumes "\<forall>k<n. c k \<le> 1"
  shows "(\<Sum>k<n. c k * 2 ^ k) < 2 ^ n"
  using assms
proof (induction n)
  case 0
  then show ?case by simp
next
  case (Suc n)
  then have a: "(\<Sum>k<n. c k * 2 ^ k) < 2 ^ n"
    by simp
  have "c n \<le> 1"
    using Suc.prems by simp
  then have b: "c n * 2 ^ n \<le> 1 * 2 ^ n"
    by (rule mult_le_mono1)
  have "(\<Sum>k<Suc n. c k * 2 ^ k) = (\<Sum>k<n. c k * 2 ^ k) + c n * 2 ^ n"
    by simp
  with a b show ?case
    by (simp only: power_Suc)
qed

lemma reverse_bits_sum:
  fixes c :: "nat \<Rightarrow> nat"
  assumes "\<forall>k<n. c k \<le> 1"
  shows "reverse_bits (\<Sum>k<n. c k * 2 ^ k) n = (\<Sum>k<n. c k * 2 ^ (n - 1 - k))"
  using assms
proof (induction n arbitrary: c)
  case 0
  then show ?case by simp
next
  case (Suc n)
  let ?x = "\<Sum>k<Suc n. c k * 2 ^ k"
  let ?y = "\<Sum>k<n. c (Suc k) * 2 ^ k"
  have x: "?x = c 0 + 2 * ?y"
    by (rule bit_sum_split)
  have c0: "c 0 \<le> 1"
    using Suc.prems by simp
  have m: "?x mod 2 = c 0"
    unfolding x using c0 by simp
  have d: "?x div 2 = ?y"
    unfolding x using c0 by simp
  have "reverse_bits ?y n = (\<Sum>k<n. c (Suc k) * 2 ^ (n - 1 - k))"
    using Suc.prems by (intro Suc.IH) simp
  then have "reverse_bits ?x (Suc n) = c 0 * 2 ^ n + (\<Sum>k<n. c (Suc k) * 2 ^ (n - 1 - k))"
    by (simp only: reverse_bits.simps m d)
  also have "\<dots> = (\<Sum>k<Suc n. c k * 2 ^ (Suc n - 1 - k))"
    by (simp add: sum.lessThan_Suc_shift del: sum.lessThan_Suc)
  finally show ?case .
qed

lemma internal_index_mirror:
  "internal_index bits = (\<Sum>k<length bits. bits ! (length bits - Suc k) * 2 ^ k)"
proof -
  have "(\<Sum>k<length bits. bits ! (length bits - Suc k) * 2 ^ (length bits - 1 - (length bits - Suc k)))
      = (\<Sum>k<length bits. bits ! k * 2 ^ (length bits - 1 - k))"
    by (rule sum.nat_diff_reindex)
  moreover have "(\<Sum>k<length bits. bits ! (length bits - Suc k) * 2 ^ (length bits - 1 - (length bits - Suc k)))
      = (\<Sum>k<length bits. bits ! (length bits - Suc k) * 2 ^ k)"
    by (rule sum.cong) auto
  ultimately show ?thesis
    by (simp add: internal_index_def)
qed

lemma external_index_mirror:
  "external_index bits =
     (\<Sum>k<length bits. bits ! (length bits - Suc k) * 2 ^ (length bits - 1 - k))"
proof -
  have "(\<Sum>k<length bits. bits ! (length bits - Suc k) * 2 ^ (length bits - Suc k))
      = (\<Sum>k<length bits. bits ! k * 2 ^ k)"
    by (rule sum.nat_diff_reindex)
  then show ?thesis
    by (simp add: external_index_def)
qed

lemma reverse_bits_internal_index:
  assumes "set bits \<subseteq> {0, 1}"
  shows "reverse_bits (internal_index bits) (length bits) = external_index bits"
    and "internal_index bits < 2 ^ length bits"
proof -
  have b: "\<forall>k<length bits. bits ! (length bits - Suc k) \<le> 1"
  proof (intro allI impI)
    fix k assume "k < length bits"
    then have "bits ! (length bits - Suc k) \<in> set bits"
      by simp
    with assms show "bits ! (length bits - Suc k) \<le> 1"
      by auto
  qed
  show "reverse_bits (internal_index bits) (length bits) = external_index bits"
    unfolding internal_index_mirror external_index_mirror
    by (rule reverse_bits_sum [OF b])
  show "internal_index bits < 2 ^ length bits"
    unfolding internal_index_mirror
    by (rule bit_sum_less [OF b])
qed

text \<open>
  C3. For a state vector of \<open>2 ^ num_qubits\<close> amplitudes on a register of
  \<open>num_qubits\<close> qubits, \<open>initialize_qreg(num_qubits, statevector)\<close> hands the
  bit-reversed vector to the register: for every assignment \<open>bits\<close> of a value to
  each qubit, the amplitude the caller gave at the index \<open>\<Sum>k. bits k * 2 ^ k\<close>
  (qubit 0 least significant) is the one the register receives at the index of the
  opposite order.
\<close>

theorem initialize_qreg_statevector_bit_order:
  assumes "mps_num_qubits M (qreg st) = num_qubits"
    and "length statevector = 2 ^ num_qubits"
    and "length bits = num_qubits"
    and "set bits \<subseteq> {0, 1}"
  shows "initialize_qreg_statevector M num_qubits statevector st =
           Inr (st\<lparr>qreg := mps_initialize_from_statevector M num_qubits
                               (reverse_all_bits statevector num_qubits) (qreg st)\<rparr>) \<and>
         length (reverse_all_bits statevector num_qubits) = 2 ^ num_qubits \<and>
         reverse_all_bits statevector num_qubits ! internal_index bits =
           statevector ! external_index bits"
proof -
  have "internal_index bits < length statevector"
    using reverse_bits_internal_index(2) [OF assms(4)] assms(2,3) by simp
  then have "reverse_all_bits statevector num_qubits ! internal_index bits =
      statevector ! reverse_bits (internal_index bits) num_qubits"
    by (simp add: reverse_all_bits_def)
  also have "\<dots> = statevector ! external_index bits"
    using reverse_bits_internal_index(1) [OF assms(4)] assms(3) by simp
  finally show ?thesis
    using assms(1,2) by (simp add: initialize_qreg_statevector_def reverse_all_bits_def)
qed

text \<open>
  Two qubits, qubit 0 in state 1 and qubit 1 in state 0: the amplitude given at
  index 1 reaches the register at index 2.
\<close>

theorem initialize_qreg_statevector_bit_order_witness:
  "mps_num_qubits basis_interface (qreg \<lparr>qreg = (2, {}), creg = ()\<rparr>) = 2 \<and>
   length [3, 5, 7, 11 :: complex] = 2 ^ 2 \<and> length [1, 0 :: nat] = 2 \<and> set [1, 0 :: nat] \<subseteq> {0, 1} \<and>
   internal_index [1, 0] = 2 \<and> external_index [1, 0] = 1 \<and>
   reverse_all_bits [3, 5, 7, 11 :: complex] 2 ! 2 = 5"
proof -
  have i: "internal_index [1, 0] = 2"
    by (simp add: internal_index_def lessThan_Suc numeral_2_eq_2)
  have e: "external_index [1, 0] = 1"
    by (simp add: external_index_def lessThan_Suc numeral_2_eq_2)
  have h1: "mps_num_qubits basis_interface (qreg \<lparr>qreg = (2, {}), creg = ()\<rparr>) = 2"
    by (rule basis_two_qubits)
  have h2: "length [3, 5, 7, 11 :: complex] = 2 ^ 2" by simp
  have h3: "length [1, 0 :: nat] = 2" by simp
  have h4: "set [1, 0 :: nat] \<subseteq> {0, 1}" by simp
  from initialize_qreg_statevector_bit_order [OF h1 h2 h3 h4]
  have "reverse_all_bits [3, 5, 7, 11 :: complex] 2 ! internal_index [1, 0] =
      [3, 5, 7, 11] ! external_index [1, 0]"
    by blast
  then have "reverse_all_bits [3, 5, 7, 11 :: complex] 2 ! 2 = 5"
    unfolding i e by simp
  with i e h1 h2 h3 h4 show ?thesis
    by blast
qed

subsection \<open>Configuration\<close>

text \<open>
  C7. \<open>set_config\<close> installs the default for every key that is absent from the
  configuration: truncation threshold \<open>1e-16\<close>, maximum bond dimension
  \<open>UINT64_MAX\<close> (no 64-bit value exceeds it), chop threshold \<open>1e-8\<close>, parallel
  threshold 14, one thread, and the heuristic sampling algorithm.
\<close>

theorem set_config_defaults:
  "(config ''matrix_product_state_truncation_threshold'' = None \<longrightarrow>
      truncation_threshold (set_config J config g) = 1 / 10 ^ 16) \<and>
   (config ''matrix_product_state_max_bond_dimension'' = None \<longrightarrow>
      max_bond_dimension (set_config J config g) = 2 ^ 64 - 1 \<and>
      (\<forall>d. d \<le> max_bond_dimension (set_config J config g))) \<and>
   (config ''chop_threshold'' = None \<longrightarrow>
      json_chop_threshold (set_config J config g) = 1 / 10 ^ 8) \<and>
   (config ''mps_parallel_threshold'' = None \<longrightarrow>
      omp_threshold (set_config J config g) = 14) \<and>
   (config ''mps_omp_threads'' = None \<longrightarrow>
      omp_threads (set_config J config g) = 1) \<and>
   (config ''mps_sample_measure_algorithm'' = None \<longrightarrow>
      sample_measure_alg (set_config J config g) = HEURISTIC)"
proof (intro conjI impI allI)
  assume "config ''matrix_product_state_truncation_threshold'' = None"
  then show "truncation_threshold (set_config J config g) = 1 / 10 ^ 16"
    by (simp add: set_config_def JSON_get_value_def Let_def split: option.split)
next
  assume "config ''matrix_product_state_max_bond_dimension'' = None"
  then show "max_bond_dimension (set_config J config g) = 2 ^ 64 - 1"
    by (simp add: set_config_def JSON_get_value_def Let_def split: option.split)
next
  fix d
  assume "config ''matrix_product_state_max_bond_dimension'' = None"
  then have "max_bond_dimension (set_config J config g) = - 1"
    by (simp add: set_config_def JSON_get_value_def Let_def split: option.split)
  then show "d \<le> max_bond_dimension (set_config J config g)"
    by simp
next
  assume "config ''chop_threshold'' = None"
  then show "json_chop_threshold (set_config J config g) = 1 / 10 ^ 8"
    by (simp add: set_config_def JSON_get_value_def Let_def split: option.split)
next
  assume "config ''mps_parallel_threshold'' = None"
  then show "omp_threshold (set_config J config g) = 14"
    by (simp add: set_config_def JSON_get_value_def Let_def split: option.split)
next
  assume "config ''mps_omp_threads'' = None"
  then show "omp_threads (set_config J config g) = 1"
    by (simp add: set_config_def JSON_get_value_def Let_def split: option.split)
next
  assume "config ''mps_sample_measure_algorithm'' = None"
  then show "sample_measure_alg (set_config J config g) = HEURISTIC"
    by (simp add: set_config_def JSON_get_value_def Let_def split: option.split)
qed

text \<open>The empty configuration replaces every setting by its default.\<close>

theorem set_config_defaults_witness:
  "set_config \<lparr>json_double = (\<lambda>j :: unit. 0), json_uint = (\<lambda>j. 0), json_string = (\<lambda>j. [])\<rparr>
     Map.empty
     \<lparr>truncation_threshold = 1, max_bond_dimension = 2, json_chop_threshold = 3,
      omp_threshold = 4, omp_threads = 5, sample_measure_alg = PROB\<rparr> =
   \<lparr>truncation_threshold = 1 / 10 ^ 16, max_bond_dimension = 2 ^ 64 - 1,
    json_chop_threshold = 1 / 10 ^ 8, omp_threshold = 14, omp_threads = 1,
    sample_measure_alg = HEURISTIC\<rparr>"
  using set_config_defaults [of Map.empty
      "\<lparr>json_double = (\<lambda>j :: unit. 0), json_uint = (\<lambda>j. 0), json_string = (\<lambda>j. [])\<rparr>"
      "\<lparr>truncation_threshold = 1, max_bond_dimension = 2, json_chop_threshold = 3,
        omp_threshold = 4, omp_threads = 5, sample_measure_alg = PROB\<rparr>"]
  by (cases "set_config \<lparr>json_double = (\<lambda>j :: unit. 0), json_uint = (\<lambda>j. 0), json_string = (\<lambda>j. [])\<rparr>
     Map.empty
     \<lparr>truncation_threshold = 1, max_bond_dimension = 2, json_chop_threshold = 3,
      omp_threshold = 4, omp_threads = 5, sample_measure_alg = PROB\<rparr>") simp

subsection \<open>Gates and snapshots\<close>

lemma map_of_absent: "name \<notin> fst ` set table \<Longrightarrow> map_of table name = None"
  by (simp add: map_of_eq_None_iff)

lemma foo_not_gate: "''foo'' \<notin> fst ` set gateset"
  by (simp add: gateset_def)

lemma foo_not_snapshot: "''foo'' \<notin> fst ` set snapshotset"
  by (simp add: snapshotset_def)

text \<open>
  C4. An operation whose name is not a key of the gate table makes \<open>apply_gate\<close>
  throw \<open>std::invalid_argument\<close> with a message that quotes the name, and one whose
  name is not a key of the snapshot table makes \<open>apply_snapshot\<close> do the same; in
  both cases the state (and the experiment result) is as it was before the call.
\<close>

theorem unknown_name_rejected:
  "(op_name op \<notin> fst ` set gateset \<longrightarrow>
      apply_gate M op st =
        Inl (Invalid_argument
               (''MatrixProductState::State::invalid gate instruction '' @
                [CHR 0x27] @ op_name op @ [CHR 0x27] @ ''.''), st)) \<and>
   (op_name op \<notin> fst ` set snapshotset \<longrightarrow>
      apply_snapshot snapshot op sr =
        Inl (Invalid_argument
               (''MatrixProductState::invalid snapshot instruction '' @
                [CHR 0x27] @ op_name op @ [CHR 0x27] @ ''.''), sr))"
  by (simp add: apply_gate_def apply_snapshot_def map_of_absent quoted_def)

theorem unknown_name_rejected_witness:
  "op_name \<lparr>op_name = ''foo'', op_qubits = [0], op_params = [], op_string_params = [],
      op_mats = [], op_params_expval_pauli = [], op_params_expval_matrix = []\<rparr>
     \<notin> fst ` set gateset \<and>
   op_name \<lparr>op_name = ''foo'', op_qubits = [0], op_params = [], op_string_params = [],
      op_mats = [], op_params_expval_pauli = [], op_params_expval_matrix = []\<rparr>
     \<notin> fst ` set snapshotset \<and>
   apply_gate basis_interface
     \<lparr>op_name = ''foo'', op_qubits = [0], op_params = [], op_string_params = [],
      op_mats = [], op_params_expval_pauli = [], op_params_expval_matrix = []\<rparr>
     \<lparr>qreg = (1, {}), creg = ()\<rparr> =
     Inl (Invalid_argument
            (''MatrixProductState::State::invalid gate instruction '' @
             [CHR 0x27] @ ''foo'' @ [CHR 0x27] @ ''.''),
          \<lparr>qreg = (1, {}), creg = ()\<rparr>) \<and>
   apply_snapshot (\<lambda>c s. Inr (Suc s))
     \<lparr>op_name = ''foo'', op_qubits = [0], op_params = [], op_string_params = [],
      op_mats = [], op_params_expval_pauli = [], op_params_expval_matrix = []\<rparr>
     (0 :: nat) =
     Inl (Invalid_argument
            (''MatrixProductState::invalid snapshot instruction '' @
             [CHR 0x27] @ ''foo'' @ [CHR 0x27] @ ''.''),
          0)"
  using unknown_name_rejected [of
      "\<lparr>op_name = ''foo'', op_qubits = [0], op_params = [], op_string_params = [],
        op_mats = [], op_params_expval_pauli = [], op_params_expval_matrix = []\<rparr>"
      basis_interface "\<lparr>qreg = (1, {}), creg = ()\<rparr>" "\<lambda>c s. Inr (Suc s)" "0 :: nat"]
    foo_not_gate foo_not_snapshot
  by simp

subsection \<open>Matrices\<close>

text \<open>
  C10. For every state, \<open>apply_matrix(qubits, mat)\<close> with an empty qubit list or an
  empty matrix returns without error and leaves the state unchanged.
\<close>

theorem apply_matrix_empty_noop:
  "qubits = [] \<or> mat_size mat = 0 \<Longrightarrow> apply_matrix M qubits mat st = Inr st"
  by (auto simp: apply_matrix_def)

theorem apply_matrix_empty_noop_witness:
  "([] = ([] :: nat list) \<or> mat_size \<lparr>mat_rows = 2, mat_cols = 2, mat_data = [1, 0, 0, 1]\<rparr> = 0) \<and>
   apply_matrix basis_interface [] \<lparr>mat_rows = 2, mat_cols = 2, mat_data = [1, 0, 0, 1]\<rparr>
     \<lparr>qreg = (1, {0}), creg = ()\<rparr> = Inr \<lparr>qreg = (1, {0}), creg = ()\<rparr>"
  using apply_matrix_empty_noop [of "[]" "\<lparr>mat_rows = 2, mat_cols = 2, mat_data = [1, 0, 0, 1]\<rparr>"
      basis_interface "\<lparr>qreg = (1, {0}), creg = ()\<rparr>"]
  by simp

subsection \<open>Reset\<close>

lemma apply_x_all_Cons:
  "apply_x_all M (k # ks) q = apply_x_all M ks (mps_apply_gate M (Apply_x k) q)"
  by (simp add: apply_x_all_def)

lemma apply_x_all_Nil: "apply_x_all M [] q = q"
  by (simp add: apply_x_all_def)

lemma measure_reset_update_from_eq:
  assumes "length meas_state = length qubits" and "i \<le> length qubits"
  shows "measure_reset_update_from M qubits 0 meas_state i q =
           Inr (apply_x_all M
                  (map fst (filter (\<lambda>(k, b). b \<noteq> 0) (drop i (zip qubits meas_state)))) q)"
  using assms(2)
proof (induction "length qubits - i" arbitrary: i q)
  case 0
  then have "i = length qubits"
    by simp
  then show ?case
    by (subst measure_reset_update_from.simps) (simp add: apply_x_all_Nil)
next
  case (Suc n)
  then have i: "i < length qubits"
    by simp
  then have z: "drop i (zip qubits meas_state) =
      (qubits ! i, meas_state ! i) # drop (Suc i) (zip qubits meas_state)"
    using assms(1) by (simp add: Cons_nth_drop_Suc [symmetric])
  have "measure_reset_update_from M qubits 0 meas_state (Suc i) q' =
      Inr (apply_x_all M
             (map fst (filter (\<lambda>(k, b). b \<noteq> 0) (drop (Suc i) (zip qubits meas_state)))) q')"
    for q'
    using Suc.hyps(2) i by (intro Suc.hyps(1)) simp_all
  then show ?case
    using i assms(1)
    by (subst measure_reset_update_from.simps) (simp add: z apply_x_all_Cons)
qed

lemma filter_outcome_bits:
  assumes "set outcome \<subseteq> {0, 1 :: nat}"
  shows "filter (\<lambda>(k, b). b \<noteq> 0) (zip qubits outcome) = filter (\<lambda>(k, b). b = 1) (zip qubits outcome)"
proof (rule filter_cong [OF refl])
  fix x assume x: "x \<in> set (zip qubits outcome)"
  obtain k b where kb: "x = (k, b)"
    by (cases x)
  with x have "b \<in> set outcome"
    by (auto dest: set_zip_rightD)
  with assms kb show "(case x of (k, b) \<Rightarrow> b \<noteq> 0) = (case x of (k, b) \<Rightarrow> b = 1)"
    by auto
qed

lemma apply_reset_eq:
  assumes "mps_apply_measure M qubits rng (qreg st) = (outcome, q1, rng1)"
    and "length outcome = length qubits"
    and "set outcome \<subseteq> {0, 1}"
  shows "apply_reset M qubits (st, rng) =
           Inr (st\<lparr>qreg := apply_x_all M (flipped_qubits qubits outcome) q1\<rparr>, rng1)"
proof -
  have "measure_reset_update_from M qubits 0 outcome 0 q1 =
      Inr (apply_x_all M (flipped_qubits qubits outcome) q1)"
    using measure_reset_update_from_eq [OF assms(2), of 0 M q1]
    by (simp only: flipped_qubits_def filter_outcome_bits [OF assms(3)] drop_0 le0)
  then show ?thesis
    using assms(1) by (simp add: apply_reset_def measure_reset_update_def)
qed

lemma measurement_contract_measure:
  assumes "measurement_contract M in_state"
    and "mps_apply_measure M qubits rng q = (outcome, q', rng')"
    and "i < length qubits"
  shows "outcome ! i \<le> 1" and "in_state q' (qubits ! i) (outcome ! i)"
  using assms unfolding measurement_contract_def by blast+

lemma measurement_contract_flip:
  assumes "measurement_contract M in_state" and "in_state q k b" and "b \<le> 1"
  shows "in_state (mps_apply_gate M (Apply_x k) q) k (1 - b)"
  using assms unfolding measurement_contract_def by blast

lemma measurement_contract_keep:
  assumes "measurement_contract M in_state" and "in_state q j b" and "j \<noteq> k"
  shows "in_state (mps_apply_gate M (Apply_x k) q) j b"
  using assms unfolding measurement_contract_def by blast

lemma apply_x_all_in_state:
  assumes "measurement_contract M in_state"
  shows "distinct ks \<Longrightarrow> in_state q k b \<Longrightarrow> b \<le> 1 \<Longrightarrow>
         in_state (apply_x_all M ks q) k (if k \<in> set ks then 1 - b else b)"
proof (induction ks arbitrary: q b)
  case Nil
  then show ?case by (simp add: apply_x_all_Nil)
next
  case (Cons x xs)
  show ?case
  proof (cases "k = x")
    case True
    have "in_state (mps_apply_gate M (Apply_x k) q) k (1 - b)"
      using assms Cons.prems(2,3) by (rule measurement_contract_flip)
    then have "in_state (mps_apply_gate M (Apply_x x) q) k (1 - b)"
      using True by simp
    moreover have "k \<notin> set xs"
      using Cons.prems True by simp
    ultimately have "in_state (apply_x_all M xs (mps_apply_gate M (Apply_x x) q)) k (1 - b)"
      using Cons.IH [of "mps_apply_gate M (Apply_x x) q" "1 - b"] Cons.prems by simp
    then show ?thesis
      using True by (simp add: apply_x_all_Cons)
  next
    case False
    have "in_state (mps_apply_gate M (Apply_x x) q) k b"
      using assms Cons.prems(2) False by (rule measurement_contract_keep)
    then have "in_state (apply_x_all M xs (mps_apply_gate M (Apply_x x) q)) k
        (if k \<in> set xs then 1 - b else b)"
      using Cons.IH [of "mps_apply_gate M (Apply_x x) q" b] Cons.prems by simp
    then show ?thesis
      using False by (simp add: apply_x_all_Cons)
  qed
qed

lemma distinct_flipped_qubits: "distinct qubits \<Longrightarrow> distinct (flipped_qubits qubits outcome)"
  unfolding flipped_qubits_def
  by (rule distinct_map_filter) (simp add: distinct_zipI1 map_fst_zip_take)

lemma flipped_qubits_member:
  assumes "distinct qubits" and "length outcome = length qubits" and "i < length qubits"
  shows "qubits ! i \<in> set (flipped_qubits qubits outcome) \<longleftrightarrow> outcome ! i = 1"
proof
  assume "qubits ! i \<in> set (flipped_qubits qubits outcome)"
  then obtain b where "(qubits ! i, b) \<in> set (zip qubits outcome)" and b: "b = 1"
    by (auto simp: flipped_qubits_def)
  then obtain j where j: "j < length qubits" "qubits ! j = qubits ! i" "outcome ! j = b"
    using assms(2) by (auto simp: in_set_zip)
  then have "j = i"
    using assms(1,3) by (simp add: nth_eq_iff_index_eq)
  with j b show "outcome ! i = 1"
    by simp
next
  assume "outcome ! i = 1"
  then have "(qubits ! i, 1) \<in> set (zip qubits outcome)"
    using assms(2,3) by (auto simp: in_set_zip)
  then show "qubits ! i \<in> set (flipped_qubits qubits outcome)"
    by (force simp: flipped_qubits_def)
qed

lemma basis_meets_contract: "measurement_contract basis_interface basis_in_state"
  unfolding measurement_contract_def
proof (intro conjI allI impI)
  fix qubits :: reg_t and rng :: nat and q :: basis_register and outcome q' rng'
  assume "mps_apply_measure basis_interface qubits rng q = (outcome, q', rng')"
  then have o: "outcome = map (\<lambda>k. if k \<in> snd q then 1 else 0) qubits" and q: "q' = q"
    by (auto simp: basis_interface_def basis_apply_measure_def)
  show "length outcome = length qubits"
    by (simp add: o)
  fix i assume "i < length qubits"
  then show "outcome ! i \<le> 1" and "basis_in_state q' (qubits ! i) (outcome ! i)"
    by (simp_all add: o q basis_in_state_def)
next
  fix q :: basis_register and k b
  assume "basis_in_state q k b" and "b \<le> 1"
  then show "basis_in_state (mps_apply_gate basis_interface (Apply_x k) q) k (1 - b)"
    by (simp add: basis_in_state_def basis_interface_def basis_apply_gate_def)
next
  fix q :: basis_register and k j b
  assume "j \<noteq> k" and "basis_in_state q j b"
  then show "basis_in_state (mps_apply_gate basis_interface (Apply_x k) q) j b"
    by (simp add: basis_in_state_def basis_interface_def basis_apply_gate_def)
qed

text \<open>
  C6, as the code has it. For every qubit list, \<open>apply_reset\<close> measures the qubits
  and then applies X once for each entry of the list whose outcome is 1, in the order
  of the list, and to nothing else; the classical register is as it was. When the
  measurement returns one bit per qubit the call returns normally. For a register that
  meets the measurement contract and a list without repetition, every target qubit is
  left in state 0.
\<close>

theorem apply_reset_measures_then_flips:
  assumes "mps_apply_measure M qubits rng (qreg st) = (outcome, q1, rng1)"
    and "length outcome = length qubits"
    and "set outcome \<subseteq> {0, 1}"
  shows "apply_reset M qubits (st, rng) =
           Inr (st\<lparr>qreg := apply_x_all M (flipped_qubits qubits outcome) q1\<rparr>, rng1) \<and>
         creg (st\<lparr>qreg := apply_x_all M (flipped_qubits qubits outcome) q1\<rparr>) = creg st \<and>
         (measurement_contract M in_state \<and> distinct qubits \<longrightarrow>
            (\<forall>k\<in>set qubits.
               in_state (apply_x_all M (flipped_qubits qubits outcome) q1) k 0))"
proof (intro conjI impI ballI)
  show "apply_reset M qubits (st, rng) =
      Inr (st\<lparr>qreg := apply_x_all M (flipped_qubits qubits outcome) q1\<rparr>, rng1)"
    by (rule apply_reset_eq [OF assms])
  show "creg (st\<lparr>qreg := apply_x_all M (flipped_qubits qubits outcome) q1\<rparr>) = creg st"
    by simp
next
  fix k
  assume c: "measurement_contract M in_state \<and> distinct qubits" and "k \<in> set qubits"
  then obtain i where i: "i < length qubits" "k = qubits ! i"
    by (auto simp: in_set_conv_nth)
  from c have c1: "measurement_contract M in_state" and c2: "distinct qubits"
    by simp_all
  have m1: "outcome ! i \<le> 1"
    using c1 assms(1) i(1) by (rule measurement_contract_measure(1))
  have "in_state q1 (qubits ! i) (outcome ! i)"
    using c1 assms(1) i(1) by (rule measurement_contract_measure(2))
  then have m2: "in_state q1 k (outcome ! i)"
    using i(2) by simp
  have d: "distinct (flipped_qubits qubits outcome)"
    using c2 by (rule distinct_flipped_qubits)
  have f: "in_state (apply_x_all M (flipped_qubits qubits outcome) q1) k
      (if k \<in> set (flipped_qubits qubits outcome) then 1 - outcome ! i else outcome ! i)"
    using c1 d m2 m1 by (rule apply_x_all_in_state)
  have e: "k \<in> set (flipped_qubits qubits outcome) \<longleftrightarrow> outcome ! i = 1"
    unfolding i(2) using c2 assms(2) i(1) by (rule flipped_qubits_member)
  have "(if k \<in> set (flipped_qubits qubits outcome) then 1 - outcome ! i else outcome ! i) = 0"
  proof (cases "outcome ! i = 1")
    case True
    then show ?thesis by (simp add: e)
  next
    case False
    with m1 have "outcome ! i = 0" by simp
    then show ?thesis by (simp add: e)
  qed
  with f show "in_state (apply_x_all M (flipped_qubits qubits outcome) q1) k 0"
    by simp
qed

text \<open>
  A three-qubit register in state 001 (qubit 2 set), reset on qubits 0 and 2: the
  outcome is 0 for qubit 0 and 1 for qubit 2, X is applied to qubit 2 only, and both
  end in state 0.
\<close>

theorem apply_reset_measures_then_flips_witness:
  "mps_apply_measure basis_interface [0, 2] 0 (qreg \<lparr>qreg = (3, {2}), creg = ()\<rparr>) = ([0, 1], (3, {2}), 1) \<and>
   length [0, 1 :: nat] = length [0, 2 :: nat] \<and>
   set [0, 1 :: nat] \<subseteq> {0, 1} \<and>
   measurement_contract basis_interface basis_in_state \<and> distinct [0, 2 :: nat] \<and>
   flipped_qubits [0, 2] [0, 1] = [2] \<and>
   apply_reset basis_interface [0, 2] (\<lparr>qreg = (3, {2}), creg = ()\<rparr>, 0) =
     Inr (\<lparr>qreg = (3, {}), creg = ()\<rparr>, 1) \<and>
   basis_in_state (3, {}) 0 0 \<and> basis_in_state (3, {}) 2 0"
proof -
  have h1: "mps_apply_measure basis_interface [0, 2] 0 (qreg \<lparr>qreg = (3, {2}), creg = ()\<rparr>) =
      ([0, 1], (3, {2}), 1)"
    by (simp add: basis_interface_def basis_apply_measure_def)
  have h2: "length [0, 1 :: nat] = length [0, 2 :: nat]" by simp
  have h3: "set [0, 1 :: nat] \<subseteq> {0, 1}" by simp
  have h4: "distinct [0, 2 :: nat]" by simp
  have f: "flipped_qubits [0, 2] [0, 1] = [2]"
    by (simp add: flipped_qubits_def)
  have x: "apply_x_all basis_interface [2] (3, {2}) = (3, {})"
    by (simp add: apply_x_all_def basis_interface_def basis_apply_gate_def)
  from apply_reset_measures_then_flips [OF h1 h2 h3, of basis_in_state]
  have "apply_reset basis_interface [0, 2] (\<lparr>qreg = (3, {2}), creg = ()\<rparr>, 0) =
      Inr (\<lparr>qreg = (3, {}), creg = ()\<rparr>, 1) \<and>
    (\<forall>k\<in>set [0, 2]. basis_in_state (3, {}) k 0)"
    using basis_meets_contract h4 unfolding f x by simp
  with h1 h2 h3 h4 f basis_meets_contract show ?thesis
    by simp
qed

text \<open>
  C6, as the specification words it, leaves every target in state 0 for every qubit
  list. With qubit 2 in state 1 and listed twice, both outcomes are 1, X is applied
  twice, and qubit 2 ends in state 1. (The register meets the measurement contract:
  lemma \<open>basis_meets_contract\<close>.)
\<close>

lemma apply_x_all_twice:
  "apply_x_all basis_interface [2, 2] (3, {2}) = (3, {2})"
  by (simp add: apply_x_all_def basis_interface_def basis_apply_gate_def)

theorem apply_reset_repeated_counterexample:
  "apply_reset basis_interface [2, 2] (\<lparr>qreg = (3, {2}), creg = ()\<rparr>, 0) =
     Inr (\<lparr>qreg = (3, {2}), creg = ()\<rparr>, 1) \<and>
   \<not> basis_in_state (3, {2}) 2 0"
proof -
  have m: "mps_apply_measure basis_interface [2, 2] 0 (qreg \<lparr>qreg = (3, {2}), creg = ()\<rparr>) =
      ([1, 1], (3, {2}), 1)"
    by (simp add: basis_interface_def basis_apply_measure_def)
  have f: "flipped_qubits [2, 2] [1, 1] = [2, 2]"
    by (simp add: flipped_qubits_def)
  have "apply_reset basis_interface [2, 2] (\<lparr>qreg = (3, {2}), creg = ()\<rparr>, 0) =
      Inr (\<lparr>qreg = (3, {2}), creg = ()\<rparr>
             \<lparr>qreg := apply_x_all basis_interface (flipped_qubits [2, 2] [1, 1]) (3, {2})\<rparr>, 1)"
    by (rule apply_reset_eq [OF m]) simp_all
  then have "apply_reset basis_interface [2, 2] (\<lparr>qreg = (3, {2}), creg = ()\<rparr>, 0) =
      Inr (\<lparr>qreg = (3, {2}), creg = ()\<rparr>, 1)"
    unfolding f apply_x_all_twice by simp
  moreover have "\<not> basis_in_state (3, {2}) 2 0"
    by (simp add: basis_in_state_def)
  ultimately show ?thesis ..
qed


subsection \<open>Sampling by measuring clones\<close>

lemma sample_loop_done: "\<not> i < n \<Longrightarrow> sample_loop M qubits n i s = s"
  by (subst sample_loop.simps) simp

lemma sample_loop_step:
  assumes "i < n" and "mps_apply_measure M qubits (rng_engine s) (this_qreg s) = (r, t1, g)"
  shows "sample_loop M qubits n i s =
           sample_loop M qubits n (i + 1)
             (s\<lparr>temp := t1, single_result := r,
                all_samples := (all_samples s)[nat i := r], rng_engine := g\<rparr>)"
  using assms by (subst sample_loop.simps) (simp add: MPS_initialize_from_def)

lemma sample_loop_result:
  assumes "0 \<le> i" and "i \<le> n" and "nat n \<le> length (all_samples s)"
  shows "this_qreg (sample_loop M qubits n i s) = this_qreg s \<and>
         all_samples (sample_loop M qubits n i s) =
           take (nat i) (all_samples s) @
           fst (measure_clones M qubits (this_qreg s) (nat (n - i)) (rng_engine s)) @
           drop (nat n) (all_samples s) \<and>
         rng_engine (sample_loop M qubits n i s) =
           snd (measure_clones M qubits (this_qreg s) (nat (n - i)) (rng_engine s))"
  using assms
proof (induction "nat (n - i)" arbitrary: i s)
  case 0
  then have "i = n"
    by simp
  then show ?case
    by (simp add: sample_loop_done)
next
  case (Suc k)
  then have lt: "i < n"
    by simp
  obtain r t1 g where m: "mps_apply_measure M qubits (rng_engine s) (this_qreg s) = (r, t1, g)"
    by (cases "mps_apply_measure M qubits (rng_engine s) (this_qreg s)")
  let ?s = "s\<lparr>temp := t1, single_result := r,
               all_samples := (all_samples s)[nat i := r], rng_engine := g\<rparr>"
  obtain rs g' where c: "measure_clones M qubits (this_qreg s) k g = (rs, g')"
    by (cases "measure_clones M qubits (this_qreg s) k g")
  have k: "nat (n - (i + 1)) = k"
    using Suc.hyps(2) by simp
  have sk: "nat (n - i) = Suc k"
    using Suc.hyps(2) by simp
  have ih: "this_qreg (sample_loop M qubits n (i + 1) ?s) = this_qreg ?s \<and>
         all_samples (sample_loop M qubits n (i + 1) ?s) =
           take (nat (i + 1)) (all_samples ?s) @
           fst (measure_clones M qubits (this_qreg ?s) (nat (n - (i + 1))) (rng_engine ?s)) @
           drop (nat n) (all_samples ?s) \<and>
         rng_engine (sample_loop M qubits n (i + 1) ?s) =
           snd (measure_clones M qubits (this_qreg ?s) (nat (n - (i + 1))) (rng_engine ?s))"
    using Suc.prems lt k by (intro Suc.hyps(1)) simp_all
  have il: "nat i < length (all_samples s)"
    using Suc.prems lt by linarith
  have "nat (i + 1) = Suc (nat i)"
    using Suc.prems(1) by simp
  then have t: "take (nat (i + 1)) ((all_samples s)[nat i := r]) = take (nat i) (all_samples s) @ [r]"
    using il by (simp add: take_Suc_conv_app_nth)
  have "nat i < nat n"
    using Suc.prems(1) lt by simp
  then have d: "drop (nat n) ((all_samples s)[nat i := r]) = drop (nat n) (all_samples s)"
    by simp
  show ?case
    using ih by (simp add: sample_loop_step [OF lt m] k sk m c t d)
qed

lemma nonneg_sint_unat:
  fixes w :: "'a::len word"
  assumes "0 \<le> sint w"
  shows "nat (sint w) = unat w"
proof -
  have "sint w < 2 ^ (LENGTH('a) - 1)"
    by (rule sint_lt)
  also have "(2 :: int) ^ (LENGTH('a) - 1) \<le> 2 ^ LENGTH('a)"
    by (rule power_increasing) simp_all
  finally have "take_bit LENGTH('a) (sint w) = sint w"
    using assms by (intro take_bit_int_eq_self) simp_all
  then have "uint w = sint w"
    by (simp add: uint_sint)
  then show ?thesis
    by (simp add: unat_eq_nat_uint)
qed

lemma small_unat_sint:
  fixes w :: "'a::len word"
  assumes "unat w < 2 ^ (LENGTH('a) - 1)"
  shows "sint w = int (unat w)"
proof -
  have "int (unat w) < int (2 ^ (LENGTH('a) - 1))"
    using assms by (simp only: of_nat_less_iff)
  then have "uint w < 2 ^ (LENGTH('a) - 1)"
    by simp
  moreover have "- (2 ^ (LENGTH('a) - 1)) \<le> uint w"
    by (rule order_trans [of _ 0]) simp_all
  ultimately have "signed_take_bit (LENGTH('a) - 1) (uint w) = uint w"
    by (rule signed_take_bit_int_eq_self [rotated])
  then show ?thesis
    by (simp add: sint_uint)
qed

lemma sample_loop_frame:
  "this_qreg (sample_loop M qubits (sint shots) 0
      \<lparr>this_qreg = q, temp = t, all_samples = replicate (unat shots) [],
       single_result = r, rng_engine = g\<rparr>) = q"
proof (cases "0 \<le> sint shots")
  case True
  then have "nat (sint shots) = unat shots"
    by (rule nonneg_sint_unat)
  then show ?thesis
    using True sample_loop_result [of 0 "sint shots"
        "\<lparr>this_qreg = q, temp = t, all_samples = replicate (unat shots) [],
          single_result = r, rng_engine = g\<rparr>" M qubits]
    by simp
next
  case False
  then show ?thesis
    by (simp add: sample_loop_done)
qed

lemma sample_loop_all_shots:
  fixes shots :: uint_t
  assumes "unat shots < 2 ^ 63"
  shows "all_samples (sample_loop M qubits (sint shots) 0
            \<lparr>this_qreg = q, temp = t, all_samples = replicate (unat shots) [],
             single_result = r, rng_engine = g\<rparr>) =
           fst (measure_clones M qubits q (unat shots) g) \<and>
         rng_engine (sample_loop M qubits (sint shots) 0
            \<lparr>this_qreg = q, temp = t, all_samples = replicate (unat shots) [],
             single_result = r, rng_engine = g\<rparr>) =
           snd (measure_clones M qubits q (unat shots) g)"
proof -
  have n: "sint shots = int (unat shots)"
    using assms by (intro small_unat_sint) simp
  show ?thesis
    using sample_loop_result [of 0 "sint shots"
        "\<lparr>this_qreg = q, temp = t, all_samples = replicate (unat shots) [],
          single_result = r, rng_engine = g\<rparr>" M qubits]
    by (simp add: n)
qed

text \<open>
  C2. For every qubit list and shot count, \<open>sample_measure_using_apply_measure\<close>
  leaves the member \<open>qreg_\<close> equal to what it was at the call, whether it returns or
  throws. When \<open>shots\<close> exceeds the \<open>max_size\<close> of the vector of samples, the call
  throws \<open>std::length_error\<close> before the first measurement, with \<open>qreg_\<close> and the
  random-number engine untouched. Otherwise it returns \<open>shots\<close> samples, each the
  outcome of a measurement applied to a clone of \<open>qreg_\<close>.
\<close>

theorem sample_measure_using_apply_measure_clones:
  "(max_size < unat shots \<longrightarrow>
      sample_measure_using_apply_measure M max_size qubits shots (q, g) =
        Inl (Length_error, (q, g))) \<and>
   (unat shots \<le> max_size \<and> max_size < 2 ^ 63 \<longrightarrow>
      sample_measure_using_apply_measure M max_size qubits shots (q, g) =
        Inr (fst (measure_clones M qubits q (unat shots) g), q,
             snd (measure_clones M qubits q (unat shots) g))) \<and>
   (case sample_measure_using_apply_measure M max_size qubits shots (q, g) of
      Inl (e, q', g') \<Rightarrow> q' = q
    | Inr (samples, q', g') \<Rightarrow> q' = q)"
proof (intro conjI impI)
  assume "max_size < unat shots"
  then show "sample_measure_using_apply_measure M max_size qubits shots (q, g) =
      Inl (Length_error, (q, g))"
    by (simp add: sample_measure_using_apply_measure_def)
next
  assume a: "unat shots \<le> max_size \<and> max_size < 2 ^ 63"
  then have "unat shots < 2 ^ 63"
    by linarith
  then show "sample_measure_using_apply_measure M max_size qubits shots (q, g) =
      Inr (fst (measure_clones M qubits q (unat shots) g), q,
           snd (measure_clones M qubits q (unat shots) g))"
    using a sample_loop_frame [of M qubits shots q "mps_default M" "[]" g]
      sample_loop_all_shots [of shots M qubits q "mps_default M" "[]" g]
    by (simp add: sample_measure_using_apply_measure_def Let_def)
next
  show "case sample_measure_using_apply_measure M max_size qubits shots (q, g) of
      Inl (e, q', g') \<Rightarrow> q' = q
    | Inr (samples, q', g') \<Rightarrow> q' = q"
    using sample_loop_frame [of M qubits shots q "mps_default M" "[]" g]
    by (simp add: sample_measure_using_apply_measure_def Let_def)
qed

text \<open>
  A two-qubit register in state 01 (qubit 1 set) and a vector limit of 5: two shots
  return two samples, six shots throw. With the limit of a 64-bit library for
  24-byte elements, \<open>2 ^ 63\<close> shots throw. The register is the same in all three.
\<close>

theorem sample_measure_using_apply_measure_clones_witness:
  "sample_measure_using_apply_measure basis_interface 5 [0, 1] 2 ((2, {1}), 0) =
     Inr ([[0, 1], [0, 1]], (2, {1}), 2) \<and>
   sample_measure_using_apply_measure basis_interface 5 [0, 1] 6 ((2, {1}), 0) =
     Inl (Length_error, ((2, {1}), 0)) \<and>
   sample_measure_using_apply_measure basis_interface 384307168202282325 [0, 1]
       0x8000000000000000 ((2, {1}), 0) =
     Inl (Length_error, ((2, {1}), 0))"
proof -
  have u: "unat (2 :: uint_t) = 2"
    by simp
  have c: "measure_clones basis_interface [0, 1] (2, {1}) 2 0 = ([[0, 1], [0, 1]], 2)"
    by (simp add: basis_interface_def basis_apply_measure_def numeral_2_eq_2)
  have "unat (2 :: uint_t) \<le> 5 \<and> (5 :: nat) < 2 ^ 63"
    by simp
  with sample_measure_using_apply_measure_clones [of 5 2 basis_interface "[0, 1]" "(2, {1})" 0]
  have a: "sample_measure_using_apply_measure basis_interface 5 [0, 1] 2 ((2, {1}), 0) =
      Inr ([[0, 1], [0, 1]], (2, {1}), 2)"
    unfolding u c by simp
  have "(5 :: nat) < unat (6 :: uint_t)"
    by simp
  with sample_measure_using_apply_measure_clones [of 5 6 basis_interface "[0, 1]" "(2, {1})" 0]
  have b: "sample_measure_using_apply_measure basis_interface 5 [0, 1] 6 ((2, {1}), 0) =
      Inl (Length_error, ((2, {1}), 0))"
    by blast
  have "(384307168202282325 :: nat) < unat (0x8000000000000000 :: uint_t)"
    by simp
  with sample_measure_using_apply_measure_clones [of 384307168202282325 "0x8000000000000000"
      basis_interface "[0, 1]" "(2, {1})" 0]
  have d: "sample_measure_using_apply_measure basis_interface 384307168202282325 [0, 1]
       0x8000000000000000 ((2, {1}), 0) =
     Inl (Length_error, ((2, {1}), 0))"
    by blast
  show ?thesis
    using a b d by (intro conjI)
qed

subsection \<open>The sampling thresholds in double precision\<close>

text \<open>
  The source compares \<open>shots\<close> with \<open>c * pow(r, num_qubits - 10)\<close> in double
  precision, the model with the exact product. For 10 qubits the exponent is 0,
  \<open>pow\<close> returns 1 and the threshold is \<open>c\<close> itself. For 11 to 26 qubits every
  threshold of the table lies more than \<open>1/1000\<close> away from the whole numbers, so
  the comparison with a whole number of shots has the same result for any value within
  \<open>1/1000\<close> of the exact threshold; the rounding error of the double computation is
  many orders of magnitude smaller. The conversion of \<open>shots\<close> to double is exact
  below \<open>2 ^ 53\<close> and monotone, and every threshold is below \<open>2 ^ 18\<close>.
\<close>

lemma threshold_between_integers:
  fixes t t' :: real and F m :: nat
  assumes "real F + 1 / 1000 < t" and "t < real F + 999 / 1000" and "\<bar>t' - t\<bar> \<le> 1 / 1000"
  shows "real m < t' \<longleftrightarrow> real m < t"
proof (cases "m \<le> F")
  case True
  then have "real m \<le> real F"
    by simp
  with assms show ?thesis
    by linarith
next
  case False
  then have "real F + 1 \<le> real m"
    by linarith
  with assms show ?thesis
    by linarith
qed

lemma exponent_values:
  "1 \<le> k \<Longrightarrow> k \<le> 16 \<Longrightarrow>
   k = 1 \<or> k = 2 \<or> k = 3 \<or> k = 4 \<or> k = 5 \<or> k = 6 \<or> k = 7 \<or> k = 8 \<or>
   k = 9 \<or> k = 10 \<or> k = 11 \<or> k = 12 \<or> k = 13 \<or> k = 14 \<or> k = 15 \<or> k = (16 :: nat)"
  by presburger

lemma exponent_cases:
  assumes "1 \<le> k" and "k \<le> 16"
  obtains "k = 1" | "k = 2" | "k = 3" | "k = 4" | "k = 5" | "k = 6" | "k = 7" | "k = 8"
    | "k = 9" | "k = 10" | "k = 11" | "k = 12" | "k = 13" | "k = 14" | "k = 15" | "k = (16 :: nat)"
  using exponent_values [OF assms] by blast


lemma band_2_threshold:
  assumes "1 \<le> k" and "k \<le> 16"
  shows "\<exists>F :: nat. real F + 1 / 1000 < 12 * (185 / 100) ^ k \<and> 12 * (185 / 100) ^ k < real F + 999 / 1000"
  using assms
proof (cases k rule: exponent_cases)
  case 1
  show ?thesis
    unfolding 1 by (intro exI [of _ 22]) (simp add: power_divide)
next
  case 2
  show ?thesis
    unfolding 2 by (intro exI [of _ 41]) (simp add: power_divide)
next
  case 3
  show ?thesis
    unfolding 3 by (intro exI [of _ 75]) (simp add: power_divide)
next
  case 4
  show ?thesis
    unfolding 4 by (intro exI [of _ 140]) (simp add: power_divide)
next
  case 5
  show ?thesis
    unfolding 5 by (intro exI [of _ 260]) (simp add: power_divide)
next
  case 6
  show ?thesis
    unfolding 6 by (intro exI [of _ 481]) (simp add: power_divide)
next
  case 7
  show ?thesis
    unfolding 7 by (intro exI [of _ 889]) (simp add: power_divide)
next
  case 8
  show ?thesis
    unfolding 8 by (intro exI [of _ 1646]) (simp add: power_divide)
next
  case 9
  show ?thesis
    unfolding 9 by (intro exI [of _ 3045]) (simp add: power_divide)
next
  case 10
  show ?thesis
    unfolding 10 by (intro exI [of _ 5635]) (simp add: power_divide)
next
  case 11
  show ?thesis
    unfolding 11 by (intro exI [of _ 10424]) (simp add: power_divide)
next
  case 12
  show ?thesis
    unfolding 12 by (intro exI [of _ 19285]) (simp add: power_divide)
next
  case 13
  show ?thesis
    unfolding 13 by (intro exI [of _ 35679]) (simp add: power_divide)
next
  case 14
  show ?thesis
    unfolding 14 by (intro exI [of _ 66006]) (simp add: power_divide)
next
  case 15
  show ?thesis
    unfolding 15 by (intro exI [of _ 122111]) (simp add: power_divide)
next
  case 16
  show ?thesis
    unfolding 16 by (intro exI [of _ 225906]) (simp add: power_divide)
qed

lemma band_4_threshold:
  assumes "1 \<le> k" and "k \<le> 16"
  shows "\<exists>F :: nat. real F + 1 / 1000 < 3 * (175 / 100) ^ k \<and> 3 * (175 / 100) ^ k < real F + 999 / 1000"
  using assms
proof (cases k rule: exponent_cases)
  case 1
  show ?thesis
    unfolding 1 by (intro exI [of _ 5]) (simp add: power_divide)
next
  case 2
  show ?thesis
    unfolding 2 by (intro exI [of _ 9]) (simp add: power_divide)
next
  case 3
  show ?thesis
    unfolding 3 by (intro exI [of _ 16]) (simp add: power_divide)
next
  case 4
  show ?thesis
    unfolding 4 by (intro exI [of _ 28]) (simp add: power_divide)
next
  case 5
  show ?thesis
    unfolding 5 by (intro exI [of _ 49]) (simp add: power_divide)
next
  case 6
  show ?thesis
    unfolding 6 by (intro exI [of _ 86]) (simp add: power_divide)
next
  case 7
  show ?thesis
    unfolding 7 by (intro exI [of _ 150]) (simp add: power_divide)
next
  case 8
  show ?thesis
    unfolding 8 by (intro exI [of _ 263]) (simp add: power_divide)
next
  case 9
  show ?thesis
    unfolding 9 by (intro exI [of _ 461]) (simp add: power_divide)
next
  case 10
  show ?thesis
    unfolding 10 by (intro exI [of _ 808]) (simp add: power_divide)
next
  case 11
  show ?thesis
    unfolding 11 by (intro exI [of _ 1414]) (simp add: power_divide)
next
  case 12
  show ?thesis
    unfolding 12 by (intro exI [of _ 2475]) (simp add: power_divide)
next
  case 13
  show ?thesis
    unfolding 13 by (intro exI [of _ 4331]) (simp add: power_divide)
next
  case 14
  show ?thesis
    unfolding 14 by (intro exI [of _ 7579]) (simp add: power_divide)
next
  case 15
  show ?thesis
    unfolding 15 by (intro exI [of _ 13264]) (simp add: power_divide)
next
  case 16
  show ?thesis
    unfolding 16 by (intro exI [of _ 23212]) (simp add: power_divide)
qed

lemma band_8_threshold:
  assumes "1 \<le> k" and "k \<le> 16"
  shows "\<exists>F :: nat. real F + 1 / 1000 < (25 / 10) * (165 / 100) ^ k \<and> (25 / 10) * (165 / 100) ^ k < real F + 999 / 1000"
  using assms
proof (cases k rule: exponent_cases)
  case 1
  show ?thesis
    unfolding 1 by (intro exI [of _ 4]) (simp add: power_divide)
next
  case 2
  show ?thesis
    unfolding 2 by (intro exI [of _ 6]) (simp add: power_divide)
next
  case 3
  show ?thesis
    unfolding 3 by (intro exI [of _ 11]) (simp add: power_divide)
next
  case 4
  show ?thesis
    unfolding 4 by (intro exI [of _ 18]) (simp add: power_divide)
next
  case 5
  show ?thesis
    unfolding 5 by (intro exI [of _ 30]) (simp add: power_divide)
next
  case 6
  show ?thesis
    unfolding 6 by (intro exI [of _ 50]) (simp add: power_divide)
next
  case 7
  show ?thesis
    unfolding 7 by (intro exI [of _ 83]) (simp add: power_divide)
next
  case 8
  show ?thesis
    unfolding 8 by (intro exI [of _ 137]) (simp add: power_divide)
next
  case 9
  show ?thesis
    unfolding 9 by (intro exI [of _ 226]) (simp add: power_divide)
next
  case 10
  show ?thesis
    unfolding 10 by (intro exI [of _ 373]) (simp add: power_divide)
next
  case 11
  show ?thesis
    unfolding 11 by (intro exI [of _ 616]) (simp add: power_divide)
next
  case 12
  show ?thesis
    unfolding 12 by (intro exI [of _ 1017]) (simp add: power_divide)
next
  case 13
  show ?thesis
    unfolding 13 by (intro exI [of _ 1679]) (simp add: power_divide)
next
  case 14
  show ?thesis
    unfolding 14 by (intro exI [of _ 2771]) (simp add: power_divide)
next
  case 15
  show ?thesis
    unfolding 15 by (intro exI [of _ 4572]) (simp add: power_divide)
next
  case 16
  show ?thesis
    unfolding 16 by (intro exI [of _ 7545]) (simp add: power_divide)
qed

lemma band_16_threshold:
  assumes "1 \<le> k" and "k \<le> 16"
  shows "\<exists>F :: nat. real F + 1 / 1000 < (5 / 10) * (175 / 100) ^ k \<and> (5 / 10) * (175 / 100) ^ k < real F + 999 / 1000"
  using assms
proof (cases k rule: exponent_cases)
  case 1
  show ?thesis
    unfolding 1 by (intro exI [of _ 0]) (simp add: power_divide)
next
  case 2
  show ?thesis
    unfolding 2 by (intro exI [of _ 1]) (simp add: power_divide)
next
  case 3
  show ?thesis
    unfolding 3 by (intro exI [of _ 2]) (simp add: power_divide)
next
  case 4
  show ?thesis
    unfolding 4 by (intro exI [of _ 4]) (simp add: power_divide)
next
  case 5
  show ?thesis
    unfolding 5 by (intro exI [of _ 8]) (simp add: power_divide)
next
  case 6
  show ?thesis
    unfolding 6 by (intro exI [of _ 14]) (simp add: power_divide)
next
  case 7
  show ?thesis
    unfolding 7 by (intro exI [of _ 25]) (simp add: power_divide)
next
  case 8
  show ?thesis
    unfolding 8 by (intro exI [of _ 43]) (simp add: power_divide)
next
  case 9
  show ?thesis
    unfolding 9 by (intro exI [of _ 76]) (simp add: power_divide)
next
  case 10
  show ?thesis
    unfolding 10 by (intro exI [of _ 134]) (simp add: power_divide)
next
  case 11
  show ?thesis
    unfolding 11 by (intro exI [of _ 235]) (simp add: power_divide)
next
  case 12
  show ?thesis
    unfolding 12 by (intro exI [of _ 412]) (simp add: power_divide)
next
  case 13
  show ?thesis
    unfolding 13 by (intro exI [of _ 721]) (simp add: power_divide)
next
  case 14
  show ?thesis
    unfolding 14 by (intro exI [of _ 1263]) (simp add: power_divide)
next
  case 15
  show ?thesis
    unfolding 15 by (intro exI [of _ 2210]) (simp add: power_divide)
next
  case 16
  show ?thesis
    unfolding 16 by (intro exI [of _ 3868]) (simp add: power_divide)
qed

lemma heuristic_threshold_robust:
  assumes "heuristic_band D = Some (c, r)" and "10 < N" and "N \<le> 26"
    and "\<bar>t - c * r ^ (N - 10)\<bar> \<le> 1 / 1000"
  shows "real m < t \<longleftrightarrow> real m < c * r ^ (N - 10)"
proof -
  have k: "1 \<le> N - 10" "N - 10 \<le> 16"
    using assms(2,3) by simp_all
  have "\<exists>F :: nat. real F + 1 / 1000 < c * r ^ (N - 10) \<and> c * r ^ (N - 10) < real F + 999 / 1000"
  proof -
    consider "c = 12" "r = 185 / 100" | "c = 3" "r = 175 / 100"
      | "c = 25 / 10" "r = 165 / 100" | "c = 5 / 10" "r = 175 / 100"
      using assms(1) by (auto simp: heuristic_band_def split: if_splits)
    then show ?thesis
    proof cases
      case 1
      show ?thesis
        unfolding 1 by (rule band_2_threshold [OF k])
    next
      case 2
      show ?thesis
        unfolding 2 by (rule band_4_threshold [OF k])
    next
      case 3
      show ?thesis
        unfolding 3 by (rule band_8_threshold [OF k])
    next
      case 4
      show ?thesis
        unfolding 4 by (rule band_16_threshold [OF k])
    qed
  qed
  then obtain F :: nat where "real F + 1 / 1000 < c * r ^ (N - 10)"
    and "c * r ^ (N - 10) < real F + 999 / 1000"
    by blast
  then show ?thesis
    using assms(4) by (rule threshold_between_integers)
qed

subsection \<open>Choice of the sampling strategy\<close>





end
